theory Spec2Isabelle
  imports Main
begin

section \<open>Lexer (src/src/lexer.py)\<close>

text \<open>
  Python strings are modelled as \<^typ>\<open>string\<close>, so a source text ranges over the code
  points below 256. The predicates \<open>isspace\<close>, \<open>isdigit\<close>, \<open>isalpha\<close>, \<open>isalnum\<close> and
  \<open>lower\<close> are Python's \<^verbatim>\<open>str\<close> methods on that range. Exceptions of the Python run
  time are values of \<open>exception\<close>.
\<close>

datatype exception =
  ValueError | AttributeError | IndexError | KeyError | TypeError | StopIteration
  | FileExistsError

datatype LexemeType =
  EOF | KEYWORD | TYPE' | IDENTIFIER
  | BYTE | BOOLEAN | SHORT | INT' | LONG | FLOAT | DOUBLE | STRING

datatype Position = Position (pos_offset: nat) (pos_line: nat) (pos_column: nat)

text \<open>\<^verbatim>\<open>Lexeme(lexemeType, position, body)\<close> with the attributes \<^verbatim>\<open>type\<close>, \<^verbatim>\<open>position\<close>, \<^verbatim>\<open>body\<close>.\<close>

datatype Lexeme =
  Lexeme (lexeme_type: "LexemeType option") (lexeme_position: Position)
    (lexeme_body: "string option")

definition Lexer_keywords :: "string list" where
  "Lexer_keywords = [''namespace'', ''import'', ''as'', ''function'', ''mcfunction'', ''var'',
     ''if'', ''else'']"

definition Lexer_types :: "string list" where
  "Lexer_types = [''Void'', ''Any'', ''Byte'', ''Boolean'', ''Short'', ''Int'', ''Long'', ''Float'',
     ''Double'', ''String'', ''List'', ''Compound'', ''ByteArray'', ''IntArray'',
     ''LongArray'']"

record Lexer =
  offset :: nat
  line :: nat
  column :: nat
  input :: string

definition Lexer_init :: "string \<Rightarrow> Lexer" where
  "Lexer_init t = \<lparr>offset = 0, line = 0, column = 0, input = t\<rparr>"

definition code :: "char \<Rightarrow> nat" where
  "code c = of_char c"

definition isspace :: "char \<Rightarrow> bool" where
  "isspace c = (let n = code c in
     (9 \<le> n \<and> n \<le> 13) \<or> (28 \<le> n \<and> n \<le> 32) \<or> n = 133 \<or> n = 160)"

definition isascii_digit :: "char \<Rightarrow> bool" where
  "isascii_digit c = (let n = code c in 48 \<le> n \<and> n \<le> 57)"

definition isdigit :: "char \<Rightarrow> bool" where
  "isdigit c = (let n = code c in isascii_digit c \<or> n = 178 \<or> n = 179 \<or> n = 185)"

definition isalpha :: "char \<Rightarrow> bool" where
  "isalpha c = (let n = code c in
     (65 \<le> n \<and> n \<le> 90) \<or> (97 \<le> n \<and> n \<le> 122) \<or> n = 170 \<or> n = 181 \<or> n = 186
     \<or> (192 \<le> n \<and> n \<le> 214) \<or> (216 \<le> n \<and> n \<le> 246) \<or> 248 \<le> n)"

definition isalnum :: "char \<Rightarrow> bool" where
  "isalnum c = (let n = code c in
     isalpha c \<or> isdigit c \<or> n = 188 \<or> n = 189 \<or> n = 190)"

definition lower :: "char \<Rightarrow> char" where
  "lower c =
     (case map_of (zip ''ABCDEFGHIJKLMNOPQRSTUVWXYZ'' ''abcdefghijklmnopqrstuvwxyz'') c of
        Some l \<Rightarrow> l
      | None \<Rightarrow>
          (let n = code c
           in if (192 \<le> n \<and> n \<le> 214) \<or> (216 \<le> n \<and> n \<le> 222) then char_of (n + 32)
              else c))"

text \<open>
  \<^verbatim>\<open>int(body)\<close> on a body that the digit loops accumulated: the decimal value when the
  body is a non-empty run of at most 4300 ASCII digits, \<^verbatim>\<open>ValueError\<close> otherwise. The
  superscript digits pass \<^verbatim>\<open>isdigit\<close> and are refused by \<^verbatim>\<open>int\<close>; a run of more than
  4300 digits, leading zeros counted, exceeds the default limit of CPython (3.11, and
  3.10.7 onwards) for the conversion of a string to an \<^verbatim>\<open>int\<close>, which the program never
  changes.
\<close>

definition digit_val :: "char \<Rightarrow> int" where
  "digit_val c = int (code c) - 48"

definition digits_val :: "string \<Rightarrow> int" where
  "digits_val s = foldl (\<lambda>a c. 10 * a + digit_val c) 0 s"

definition py_int :: "string \<Rightarrow> exception + int" where
  "py_int s =
     (if s \<noteq> [] \<and> list_all isascii_digit s \<and> length s \<le> 4300 then Inr (digits_val s)
      else Inl ValueError)"

text \<open>
  \<^verbatim>\<open>float(body) + 3.4E38 > 6.8E38\<close>, in binary64 arithmetic. \<^verbatim>\<open>float\<close> raises
  \<^verbatim>\<open>ValueError\<close> on a body without an ASCII digit or with a superscript digit, and has
  no limit on the number of digits; otherwise it rounds the decimal value of the body to
  the nearest double, ties to even. The double of \<open>3.4E38\<close> is \<open>a = m * 2 ^ 75\<close> with
  \<open>m = 8999725064576941\<close>, an odd number of 53 bits, and the double of \<open>6.8E38\<close> is
  \<open>2 * a\<close>. For a double \<open>x \<le> a\<close> the sum \<open>x + a\<close> is at most \<open>2 * a\<close>; for
  \<open>x \<ge> a + 2 ^ 75\<close>, the next double, the sum is at least \<open>2 * a + 2 ^ 75\<close>, which lies
  half way between the doubles \<open>m * 2 ^ 76\<close> and \<open>(m + 1) * 2 ^ 76\<close> and rounds to the
  latter, \<open>m + 1\<close> being even. The body rounds to \<open>a + 2 ^ 75\<close> or more exactly when
  its value is at least the midpoint \<open>(2 * m + 1) * 2 ^ 74\<close>, the tie again going to the
  even \<open>m + 1\<close>. So the comparison holds exactly when the value of the body is at least
  \<open>17999450129153883 * 2 ^ 74 = 340000000000000015013312517524812726272\<close>.
\<close>

definition float_too_big :: "string \<Rightarrow> exception + bool" where
  "float_too_big s =
     (let ip = takeWhile (\<lambda>c. c \<noteq> CHR ''.'') s;
          fp = drop 1 (dropWhile (\<lambda>c. c \<noteq> CHR ''.'') s)
      in if list_all isascii_digit (ip @ fp) \<and> ip @ fp \<noteq> []
         then Inr (digits_val (ip @ fp) \<ge> 17999450129153883 * 2 ^ 74 * 10 ^ length fp)
         else Inl ValueError)"

definition peekch :: "Lexer \<Rightarrow> char" where
  "peekch lx = (if offset lx < length (input lx) then input lx ! offset lx else CHR 0x00)"

definition consume :: "Lexer \<Rightarrow> Lexer" where
  "consume lx =
     (if peekch lx = CHR 0x0A
      then lx\<lparr>offset := offset lx + 1, line := line lx + 1, column := 0\<rparr>
      else lx\<lparr>offset := offset lx + 1, column := column lx + 1\<rparr>)"

definition lexer_position :: "Lexer \<Rightarrow> Position" where
  "lexer_position lx = Position (offset lx) (line lx) (column lx)"

definition remaining :: "Lexer \<Rightarrow> nat" where
  "remaining lx = length (input lx) - offset lx"

lemma peekch_nonzero: "peekch lx \<noteq> CHR 0x00 \<Longrightarrow> offset lx < length (input lx)"
  by (auto simp: peekch_def split: if_splits)

lemma remaining_consume:
  "peekch lx \<noteq> CHR 0x00 \<Longrightarrow> remaining (consume lx) < remaining lx"
  by (frule peekch_nonzero) (simp add: remaining_def consume_def)

lemma input_consume [simp]: "input (consume lx) = input lx"
  by (simp add: consume_def)

lemma offset_consume [simp]: "offset (consume lx) = Suc (offset lx)"
  by (simp add: consume_def)

lemma isspace_nonzero: "isspace c \<Longrightarrow> c \<noteq> CHR 0x00"
  by (auto simp: isspace_def code_def)

lemma isdigit_nonzero: "isdigit c \<Longrightarrow> c \<noteq> CHR 0x00"
  by (auto simp: isdigit_def isascii_digit_def code_def)

lemma isalnum_nonzero: "isalnum c \<Longrightarrow> c \<noteq> CHR 0x00"
  by (auto simp: isalnum_def isalpha_def isdigit_def isascii_digit_def code_def)

text \<open>\<^verbatim>\<open>while self.peekch().isspace(): self.consume()\<close>\<close>

function skip_space :: "Lexer \<Rightarrow> Lexer" where
  "skip_space lx = (if isspace (peekch lx) then skip_space (consume lx) else lx)"
  by pat_completeness auto
termination
  by (relation "measure remaining") (auto dest!: isspace_nonzero intro: remaining_consume)

declare skip_space.simps [simp del]

text \<open>The loop of a line comment: \<^verbatim>\<open>while self.peekch() not in "\r\n\0": self.consume()\<close>\<close>

function skip_line :: "Lexer \<Rightarrow> Lexer" where
  "skip_line lx =
     (if peekch lx \<notin> {CHR 0x0D, CHR 0x0A, CHR 0x00} then skip_line (consume lx) else lx)"
  by pat_completeness auto
termination
  by (relation "measure remaining") (auto intro: remaining_consume)

declare skip_line.simps [simp del]

text \<open>The loop of a block comment, left by \<^verbatim>\<open>break\<close> after \<^verbatim>\<open>*/\<close> or at the end of the text.\<close>

function skip_block :: "Lexer \<Rightarrow> Lexer" where
  "skip_block lx =
     (if peekch lx \<noteq> CHR 0x00
      then (let ch = peekch lx; lx1 = consume lx
            in if ch = CHR ''*'' \<and> peekch lx1 = CHR ''/'' then consume lx1
               else skip_block lx1)
      else lx)"
  by pat_completeness auto
termination
  by (relation "measure remaining") (auto intro: remaining_consume)

declare skip_block.simps [simp del]

text \<open>\<^verbatim>\<open>while self.peekch().isdigit(): body += self.peekch(); self.consume()\<close>\<close>

function read_digits :: "Lexer \<Rightarrow> string \<Rightarrow> Lexer \<times> string" where
  "read_digits lx body =
     (if isdigit (peekch lx) then read_digits (consume lx) (body @ [peekch lx])
      else (lx, body))"
  by pat_completeness auto
termination
  by (relation "measure (\<lambda>(lx, b). remaining lx)")
     (auto dest!: isdigit_nonzero intro: remaining_consume)

declare read_digits.simps [simp del]


text \<open>
  \<^verbatim>\<open>read_number\<close>. A function that can raise returns \<open>exception + result\<close>; the result
  carries the lexer after the call. The suffix is compared and appended in lower case,
  as the source does.
\<close>

definition read_number :: "Lexer \<Rightarrow> exception + Lexeme \<times> Lexer" where
  "read_number lx0 =
     (let position = lexer_position lx0;
          (lx1, b1) = read_digits lx0 [];
          (lx, b) = (if peekch lx1 = CHR ''.''
                     then read_digits (consume lx1) (b1 @ [peekch lx1]) else (lx1, b1));
          ch = lower (peekch lx)
      in if ch = CHR ''b'' then
           (if CHR ''.'' \<in> set b then Inr (Lexeme None position (Some b), lx)
            else case py_int b of Inl e \<Rightarrow> Inl e
              | Inr n \<Rightarrow>
                  if n + 128 > 255 then Inr (Lexeme None position (Some b), lx)
                  else Inr (Lexeme (Some BYTE) position (Some (b @ [ch])), consume lx))
         else if ch = CHR ''s'' then
           (if CHR ''.'' \<in> set b then Inr (Lexeme None position (Some b), lx)
            else case py_int b of Inl e \<Rightarrow> Inl e
              | Inr n \<Rightarrow>
                  if n + 32768 > 65535 then Inr (Lexeme None position (Some b), lx)
                  else Inr (Lexeme (Some SHORT) position (Some (b @ [ch])), consume lx))
         else if ch = CHR ''l'' then
           (if CHR ''.'' \<in> set b then Inr (Lexeme None position (Some b), lx)
            else case py_int b of Inl e \<Rightarrow> Inl e
              | Inr n \<Rightarrow>
                  if n + 9223372036854775808 > 18446744073709551615
                  then Inr (Lexeme None position (Some b), lx)
                  else Inr (Lexeme (Some LONG) position (Some (b @ [ch])), consume lx))
         else if ch = CHR ''f'' then
           (case float_too_big b of Inl e \<Rightarrow> Inl e
            | Inr big \<Rightarrow>
                if big then Inr (Lexeme None position (Some b), lx)
                else Inr (Lexeme (Some FLOAT) position (Some (b @ [ch])), consume lx))
         else if ch = CHR ''d'' then
           Inr (Lexeme (Some DOUBLE) position (Some (b @ [ch])), consume lx)
         else if CHR ''.'' \<in> set b then Inr (Lexeme (Some DOUBLE) position (Some b), lx)
         else (case py_int b of Inl e \<Rightarrow> Inl e
            | Inr n \<Rightarrow>
                if n + 2147483648 \<le> 4294967295
                then Inr (Lexeme (Some INT') position (Some b), lx)
                else Inr (Lexeme None position (Some b), lx)))"

text \<open>
  The loop of \<^verbatim>\<open>read_string\<close>. The flag is \<open>False\<close> where the source returns the invalid
  lexeme from inside the loop, \<open>True\<close> where the loop ends at the closing delimiter.
\<close>

lemma remaining_consume_le: "remaining (consume lx) \<le> remaining lx"
  by (simp add: remaining_def)

lemma remaining_consume2:
  "peekch lx \<noteq> CHR 0x00 \<Longrightarrow> remaining (consume (consume lx)) < remaining lx"
  using remaining_consume [of lx] remaining_consume_le [of "consume lx"] by simp

function string_loop :: "char \<Rightarrow> Lexer \<Rightarrow> string \<Rightarrow> bool \<times> Lexer \<times> string" where
  "string_loop delimiter lx b =
     (if peekch lx \<noteq> delimiter then
        (let ch = peekch lx
         in if ch \<in> {CHR 0x0D, CHR 0x0A, CHR 0x00} then (False, lx, b)
            else (let lx1 = consume lx; b1 = b @ [ch]
                  in if ch = CHR 0x5C then
                       (let ch2 = peekch lx1
                        in if ch2 \<in> {CHR 0x5C, CHR 0x22, CHR 0x27}
                           then string_loop delimiter (consume lx1) (b1 @ [ch2])
                           else (False, lx1, b1))
                     else string_loop delimiter lx1 b1))
      else (True, lx, b))"
  by pat_completeness auto
termination
  by (relation "measure (\<lambda>(d, lx, b). remaining lx)")
     (auto intro: remaining_consume remaining_consume2)

declare string_loop.simps [simp del]

definition read_string :: "Lexer \<Rightarrow> Lexeme \<times> Lexer" where
  "read_string lx0 =
     (let position = lexer_position lx0;
          delimiter = peekch lx0;
          (closed, lx, b) = string_loop delimiter (consume lx0) [delimiter]
      in if closed
         then (Lexeme (Some STRING) position (Some (b @ [peekch lx])), consume lx)
         else (Lexeme None position (Some b), lx))"

text \<open>\<^verbatim>\<open>while self.peekch().isalnum(): body += self.peekch(); self.consume()\<close>\<close>

function read_alnums :: "Lexer \<Rightarrow> string \<Rightarrow> Lexer \<times> string" where
  "read_alnums lx b =
     (if isalnum (peekch lx) then read_alnums (consume lx) (b @ [peekch lx]) else (lx, b))"
  by pat_completeness auto
termination
  by (relation "measure (\<lambda>(lx, b). remaining lx)")
     (auto dest!: isalnum_nonzero intro: remaining_consume)

declare read_alnums.simps [simp del]

definition read_identifier :: "Lexer \<Rightarrow> Lexeme \<times> Lexer" where
  "read_identifier lx0 =
     (let position = lexer_position lx0;
          (lx, b) = read_alnums lx0 [];
          lexemeType =
            (if b \<in> set Lexer_keywords then KEYWORD
             else if b \<in> set Lexer_types then TYPE'
             else if b = ''true'' \<or> b = ''false'' then BOOLEAN
             else IDENTIFIER)
      in (Lexeme (Some lexemeType) position (Some b), lx))"

lemma remaining_skip_space: "remaining (skip_space lx) \<le> remaining lx"
proof (induction lx rule: skip_space.induct)
  case (1 lx)
  show ?case
  proof (cases "isspace (peekch lx)")
    case True
    with 1 have "remaining (skip_space (consume lx)) \<le> remaining (consume lx)" by simp
    with True show ?thesis
      using remaining_consume_le [of lx] by (subst skip_space.simps) simp
  next
    case False
    then show ?thesis by (subst skip_space.simps) simp
  qed
qed

lemma remaining_skip_line: "remaining (skip_line lx) \<le> remaining lx"
proof (induction lx rule: skip_line.induct)
  case (1 lx)
  show ?case
  proof (cases "peekch lx \<notin> {CHR 0x0D, CHR 0x0A, CHR 0x00}")
    case True
    with 1 have "remaining (skip_line (consume lx)) \<le> remaining (consume lx)" by simp
    with True show ?thesis
      using remaining_consume_le [of lx] by (subst skip_line.simps) simp
  next
    case False
    then show ?thesis by (subst skip_line.simps) simp
  qed
qed

lemma remaining_skip_block: "remaining (skip_block lx) \<le> remaining lx"
proof (induction lx rule: skip_block.induct)
  case (1 lx)
  show ?case
  proof (cases "peekch lx \<noteq> CHR 0x00")
    case nz: True
    show ?thesis
    proof (cases "peekch lx = CHR ''*'' \<and> peekch (consume lx) = CHR ''/''")
      case True
      with nz show ?thesis
        using remaining_consume_le [of lx] remaining_consume_le [of "consume lx"]
        by (subst skip_block.simps) (simp add: Let_def)
    next
      case False
      with 1 nz have "remaining (skip_block (consume lx)) \<le> remaining (consume lx)"
        by simp
      with nz False show ?thesis
        using remaining_consume_le [of lx] by (subst skip_block.simps) (auto simp: Let_def)
    qed
  next
    case False
    then show ?thesis by (subst skip_block.simps) simp
  qed
qed

text \<open>
  \<^verbatim>\<open>Lexer.next\<close>. The result is \<open>None\<close> where the source falls off the end of the
  function and so returns \<^verbatim>\<open>None\<close>: the branch of a \<^verbatim>\<open>/\<close> has no \<^verbatim>\<open>else\<close>.
\<close>

function lexer_next :: "Lexer \<Rightarrow> exception + Lexeme option \<times> Lexer" where
  "lexer_next lx0 =
     (let lx = skip_space lx0; ch = peekch lx
      in if ch = CHR 0x00 then Inr (Some (Lexeme (Some EOF) (lexer_position lx) None), lx)
         else if ch = CHR ''/'' then
           (let lx1 = consume lx; ch1 = peekch lx1
            in if ch1 = CHR ''/'' then lexer_next (skip_line (consume lx1))
               else if ch1 = CHR ''*'' then lexer_next (skip_block (consume lx1))
               else Inr (None, lx1))
         else if ch = CHR ''='' then
           (let position = lexer_position lx; lx1 = consume lx; ch1 = peekch lx1
            in if ch1 = CHR ''=''
               then Inr (Some (Lexeme None position (Some [ch, ch1])), consume lx1)
               else Inr (Some (Lexeme None position (Some [ch])), lx1))
         else if isdigit ch \<or> ch = CHR ''.'' then
           (case read_number lx of Inl e \<Rightarrow> Inl e | Inr (l, lx1) \<Rightarrow> Inr (Some l, lx1))
         else if ch = CHR 0x22 \<or> ch = CHR 0x27 then
           (case read_string lx of (l, lx1) \<Rightarrow> Inr (Some l, lx1))
         else if isalpha ch then
           (case read_identifier lx of (l, lx1) \<Rightarrow> Inr (Some l, lx1))
         else Inr (Some (Lexeme None (lexer_position lx) (Some [ch])), consume lx))"
  by pat_completeness auto
termination
proof (relation "measure remaining")
  show "wf (measure remaining)" by simp
next
  fix lx0 lx :: Lexer and ch :: char and lx1 :: Lexer
  assume "lx = skip_space lx0" and "ch = peekch lx" and "ch \<noteq> CHR 0x00"
    and "lx1 = consume lx"
  then have "remaining lx1 < remaining lx0"
    using remaining_consume [of "skip_space lx0"] remaining_skip_space [of lx0] by simp
  then show "(skip_line (consume lx1), lx0) \<in> measure remaining"
    using remaining_skip_line [of "consume lx1"] remaining_consume_le [of lx1] by simp
next
  fix lx0 lx :: Lexer and ch :: char and lx1 :: Lexer
  assume "lx = skip_space lx0" and "ch = peekch lx" and "ch \<noteq> CHR 0x00"
    and "lx1 = consume lx"
  then have "remaining lx1 < remaining lx0"
    using remaining_consume [of "skip_space lx0"] remaining_skip_space [of lx0] by simp
  then show "(skip_block (consume lx1), lx0) \<in> measure remaining"
    using remaining_skip_block [of "consume lx1"] remaining_consume_le [of lx1] by simp
qed

declare lexer_next.simps [simp del]

text \<open>\<^verbatim>\<open>lookahead\<close> restores offset, line and column: only the lexeme is kept.\<close>

definition lookahead :: "Lexer \<Rightarrow> exception + Lexeme option" where
  "lookahead lx = (case lexer_next lx of Inl e \<Rightarrow> Inl e | Inr (l, _) \<Rightarrow> Inr l)"

text \<open>Python's \<^verbatim>\<open>str\<close> of an integer: its decimal digits, after a minus sign if negative.\<close>

definition digit_char :: "nat \<Rightarrow> char" where
  "digit_char k = ''0123456789'' ! k"

fun str_nat :: "nat \<Rightarrow> string" where
  "str_nat n =
     (if n < 10 then [digit_char n] else str_nat (n div 10) @ [digit_char (n mod 10)])"

declare str_nat.simps [simp del]

definition str :: "int \<Rightarrow> string" where
  "str i = (if i < 0 then CHR ''-'' # str_nat (nat (- i)) else str_nat (nat i))"

section \<open>Compiler data (src/src/compiler.py)\<close>

text \<open>
  The ten \<^verbatim>\<open>CubentType\<close> objects. \<^verbatim>\<open>CubentType.Void\<close> is assigned with a trailing comma
  and so is a one-element tuple, not a \<^verbatim>\<open>CubentType\<close>: reading its \<^verbatim>\<open>path\<close> raises
  \<^verbatim>\<open>AttributeError\<close> (see \<open>write_type_conversion\<close>). \<^verbatim>\<open>getattr(CubentType, name)\<close>
  raises \<^verbatim>\<open>AttributeError\<close> for the five type names that have no object.
\<close>

datatype CubentType = Void | Any | Byte | Boolean | Short | Int' | Long | Float | Double | String

definition getattr_CubentType :: "string \<Rightarrow> exception + CubentType" where
  "getattr_CubentType name =
     (if name = ''Void'' then Inr Void
      else if name = ''Any'' then Inr Any
      else if name = ''Byte'' then Inr Byte
      else if name = ''Boolean'' then Inr Boolean
      else if name = ''Short'' then Inr Short
      else if name = ''Int'' then Inr Int'
      else if name = ''Long'' then Inr Long
      else if name = ''Float'' then Inr Float
      else if name = ''Double'' then Inr Double
      else if name = ''String'' then Inr String
      else Inl AttributeError)"

text \<open>\<^verbatim>\<open>".".join(t.path)\<close> for a type other than \<open>Void\<close>.\<close>

fun type_path :: "CubentType \<Rightarrow> string" where
  "type_path Void = ''Void''"
| "type_path Any = ''Any''"
| "type_path Byte = ''Byte''"
| "type_path Boolean = ''Boolean''"
| "type_path Short = ''Short''"
| "type_path Int' = ''Int''"
| "type_path Long = ''Long''"
| "type_path Float = ''Float''"
| "type_path Double = ''Double''"
| "type_path String = ''String''"

text \<open>
  The operand of \<^verbatim>\<open>LOAD\<close>. A \<^verbatim>\<open>float\<close> value is kept as the decimal text it was read
  from: rounding to binary and \<^verbatim>\<open>repr\<close> are not modelled.
\<close>

datatype Literal = BoolLit bool | IntLit int | FloatLit string | StrLit string

text \<open>
  \<^verbatim>\<open>Command(context, operation, data)\<close>: the operation is written with its operands
  (\<^verbatim>\<open>data\<close>), and of the context the position is kept.
\<close>

datatype Operation =
    LOAD CubentType Literal
  | DECLARE_VAR string
  | GET_VAR string
  | SET_VAR string
  | GET_PROP string
  | SET_PROP string
  | CALL "string list" nat
  | GET_ARG nat
  | DO_IF "Command list"
  | ADD | SUB | DIV | MUL | EQ | NEQ | OR | AND
and Command = Command (command_position: Position) (operation: Operation)

text \<open>A \<^verbatim>\<open>dict\<close> keeps insertion order; assigning to a key that is present keeps its place.\<close>

fun dict_set :: "('k \<times> 'v) list \<Rightarrow> 'k \<Rightarrow> 'v \<Rightarrow> ('k \<times> 'v) list" where
  "dict_set [] k v = [(k, v)]"
| "dict_set ((k', v') # kvs) k v =
     (if k' = k then (k, v) # kvs else (k', v') # dict_set kvs k v)"

datatype Function =
    CubentFunction (function_path: "string list")
      (function_parameters: "(string \<times> CubentType) list") (function_return_type: CubentType)
      (function_commands: "Command list")
  | MCFunction (function_path: "string list")
      (function_parameters: "(string \<times> CubentType) list") (function_return_type: CubentType)
      (function_location: string)

text \<open>
  How a compilation ends without a result: a Python exception, \<^verbatim>\<open>return False\<close> with
  \<^verbatim>\<open>self.error\<close> a \<^verbatim>\<open>CompilationError\<close> (its position is kept, its message is not), with
  \<^verbatim>\<open>self.error\<close> the string of the version gate, or with \<^verbatim>\<open>self.error\<close> left \<^verbatim>\<open>None\<close>.
  \<open>OutOfFuel\<close> is not an outcome of the source: the parser's recursion is bounded by a
  counter in the model.
\<close>

datatype error =
  Raised exception | CompilationError Position | VersionError | Unexpected | OutOfFuel

text \<open>
  \<^verbatim>\<open>CompilationError(context, message)\<close> reads the line of its position from
  \<^verbatim>\<open>source_code.splitlines()\<close>, which raises \<^verbatim>\<open>IndexError\<close> for a position behind the last
  line (the \<^verbatim>\<open>EOF\<close> lexeme of a text that is empty or ends in a line break).
\<close>

definition is_linebreak :: "char \<Rightarrow> bool" where
  "is_linebreak c = (code c \<in> {10, 11, 12, 13, 28, 29, 30, 133})"

fun splitlines_from :: "string \<Rightarrow> string \<Rightarrow> string list" where
  "splitlines_from [] cur = (if cur = [] then [] else [cur])"
| "splitlines_from [c] cur = (if is_linebreak c then [cur] else [cur @ [c]])"
| "splitlines_from (c # d # cs) cur =
     (if c = CHR 0x0D \<and> d = CHR 0x0A then cur # splitlines_from cs []
      else if is_linebreak c then cur # splitlines_from (d # cs) []
      else splitlines_from (d # cs) (cur @ [c]))"

definition splitlines :: "string \<Rightarrow> string list" where
  "splitlines s = splitlines_from s []"

definition compilation_error :: "string \<Rightarrow> Position \<Rightarrow> error" where
  "compilation_error source_code p =
     (if pos_line p < length (splitlines source_code) then CompilationError p
      else Raised IndexError)"

text \<open>
  The parser reads an attribute of every lexeme it takes from the lexer, so a \<^verbatim>\<open>None\<close>
  returned by \<^verbatim>\<open>next\<close> or \<^verbatim>\<open>lookahead\<close> raises \<^verbatim>\<open>AttributeError\<close>. \<open>skip_lexeme\<close> is a
  call of \<^verbatim>\<open>lexer.next()\<close> whose result is not used.
\<close>

definition next_lexeme :: "Lexer \<Rightarrow> error + Lexeme \<times> Lexer" where
  "next_lexeme lx =
     (case lexer_next lx of Inl e \<Rightarrow> Inl (Raised e)
      | Inr (None, lx') \<Rightarrow> Inl (Raised AttributeError)
      | Inr (Some l, lx') \<Rightarrow> Inr (l, lx'))"

definition peek_lexeme :: "Lexer \<Rightarrow> error + Lexeme" where
  "peek_lexeme lx =
     (case lookahead lx of Inl e \<Rightarrow> Inl (Raised e)
      | Inr None \<Rightarrow> Inl (Raised AttributeError)
      | Inr (Some l) \<Rightarrow> Inr l)"

definition skip_lexeme :: "Lexer \<Rightarrow> error + Lexer" where
  "skip_lexeme lx =
     (case lexer_next lx of Inl e \<Rightarrow> Inl (Raised e) | Inr (l, lx') \<Rightarrow> Inr lx')"

text \<open>The body of a lexeme that has one (every lexeme but \<^verbatim>\<open>EOF\<close>).\<close>

definition lexeme_text :: "Lexeme \<Rightarrow> string" where
  "lexeme_text l = (case lexeme_body l of Some b \<Rightarrow> b | None \<Rightarrow> [])"

definition body_in :: "Lexeme \<Rightarrow> string list \<Rightarrow> bool" where
  "body_in l names = (case lexeme_body l of Some b \<Rightarrow> b \<in> set names | None \<Rightarrow> False)"

definition operators :: "string list list" where
  "operators = [[''+'', ''-''], [''*'', ''/''], [''=='', ''!=''], [''||'', ''&&'']]"

definition operations :: "(string \<times> Operation) list" where
  "operations = [(''+'', ADD), (''-'', SUB), (''*'', MUL), (''/'', DIV), (''=='', EQ),
     (''!='', NEQ), (''||'', OR), (''&&'', AND)]"

text \<open>\<^verbatim>\<open>[operator for operators in self.operators[precedence:] for operator in operators]\<close>\<close>

definition operators_from :: "nat \<Rightarrow> string list" where
  "operators_from precedence = concat (drop precedence operators)"

text \<open>\<^verbatim>\<open>s.rstrip(chars)\<close>\<close>

definition rstrip :: "string \<Rightarrow> string \<Rightarrow> string" where
  "rstrip s chars = rev (dropWhile (\<lambda>c. c \<in> set chars) (rev s))"

text \<open>\<^verbatim>\<open>float(s)\<close>: the text of the value, or \<^verbatim>\<open>ValueError\<close>.\<close>

definition py_float :: "string \<Rightarrow> exception + string" where
  "py_float s = (case float_too_big s of Inl e \<Rightarrow> Inl e | Inr _ \<Rightarrow> Inr s)"

text \<open>
  The loop that decodes a string lexeme: the delimiters are dropped and a backslash
  yields the character after it.
\<close>

function unescape_from :: "string \<Rightarrow> nat \<Rightarrow> string \<Rightarrow> string" where
  "unescape_from s off acc =
     (if off < length s - 1
      then (if s ! off = CHR 0x5C then unescape_from s (off + 2) (acc @ [s ! (off + 1)])
            else unescape_from s (off + 1) (acc @ [s ! off]))
      else acc)"
  by pat_completeness auto
termination
  by (relation "measure (\<lambda>(s, off, acc). length s - off)") auto

declare unescape_from.simps [simp del]

definition unescape :: "string \<Rightarrow> string" where
  "unescape s = unescape_from s 1 []"

text \<open>
  \<^verbatim>\<open>next(index for index, (name, _) in enumerate(parameters) if name == body)\<close>:
  \<^verbatim>\<open>enumerate\<close> of a \<^verbatim>\<open>dict\<close> yields its keys, and each key is unpacked into two
  characters, which raises \<^verbatim>\<open>ValueError\<close> unless the key has length 2.
\<close>

fun get_arg_index :: "string list \<Rightarrow> string \<Rightarrow> nat \<Rightarrow> exception + nat" where
  "get_arg_index [] b index = Inl StopIteration"
| "get_arg_index (k # ks) b index =
     (case k of
        [name, u] \<Rightarrow> if [name] = b then Inr index else get_arg_index ks b (index + 1)
      | _ \<Rightarrow> Inl ValueError)"

type_synonym ImportMap = "(string \<times> string list) list"
type_synonym Parameters = "(string \<times> CubentType) list"

text \<open>
  Every loop and every recursive function of the parser is written in two steps: its
  body, with the continuation as an argument, and a recursion on a fuel counter that
  closes it. \<open>OutOfFuel\<close> is returned where the counter is used up.

  The loop of an assignment's target, \<^verbatim>\<open>while lexer.lookahead().body == "."\<close>; the
  path is a list of lexemes.
\<close>

type_synonym PathParser = "Lexer \<Rightarrow> Lexeme list \<Rightarrow> error + Lexeme list \<times> Lexer"

definition assignment_path_body :: "PathParser \<Rightarrow> PathParser" where
  "assignment_path_body continue lx path =
     (case peek_lexeme lx of Inl e \<Rightarrow> Inl e
      | Inr dot \<Rightarrow>
          if lexeme_body dot = Some ''.'' then
            (case skip_lexeme lx of Inl e \<Rightarrow> Inl e
             | Inr lx1 \<Rightarrow>
                 (case next_lexeme lx1 of Inl e \<Rightarrow> Inl e
                  | Inr (lexeme, lx2) \<Rightarrow>
                      if lexeme_type lexeme \<noteq> Some IDENTIFIER
                      then Inl (compilation_error (input lx) (lexeme_position lexeme))
                      else continue lx2 (path @ [lexeme])))
          else Inr (path, lx))"

primrec assignment_path :: "nat \<Rightarrow> PathParser" where
  "assignment_path 0 = (\<lambda>lx path. Inl OutOfFuel)"
| "assignment_path (Suc n) = assignment_path_body (assignment_path n)"

text \<open>The commands appended for the target of an assignment.\<close>

definition assignment_commands :: "Lexeme list \<Rightarrow> Command list" where
  "assignment_commands path =
     (if length path > 1
      then [Command (lexeme_position (hd path)) (GET_VAR (lexeme_text (hd path)))]
        @ map (\<lambda>l. Command (lexeme_position l) (GET_PROP (lexeme_text l))) (butlast (tl path))
        @ [Command (lexeme_position (last path)) (SET_PROP (lexeme_text (last path)))]
      else [Command (lexeme_position (hd path)) (SET_VAR (lexeme_text (hd path)))])"

text \<open>The literal branches of \<^verbatim>\<open>compile_primary\<close>: the operation loaded for a lexeme.\<close>

definition literal_operation :: "Lexeme \<Rightarrow> (exception + Operation) option" where
  "literal_operation lexeme =
     (let b = lexeme_text lexeme; t = lexeme_type lexeme
      in if t = Some BOOLEAN then Some (Inr (LOAD Boolean (BoolLit (b = ''true''))))
         else if t = Some BYTE then
           Some (case py_int (rstrip b ''Bb'') of Inl e \<Rightarrow> Inl e
                 | Inr i \<Rightarrow> Inr (LOAD Byte (IntLit i)))
         else if t = Some SHORT then
           Some (case py_int (rstrip b ''Ss'') of Inl e \<Rightarrow> Inl e
                 | Inr i \<Rightarrow> Inr (LOAD Short (IntLit i)))
         else if t = Some INT' then
           Some (case py_int b of Inl e \<Rightarrow> Inl e | Inr i \<Rightarrow> Inr (LOAD Int' (IntLit i)))
         else if t = Some LONG then
           Some (case py_int (rstrip b ''Ll'') of Inl e \<Rightarrow> Inl e
                 | Inr i \<Rightarrow> Inr (LOAD Long (IntLit i)))
         else if t = Some FLOAT then
           Some (case py_float (rstrip b ''Ff'') of Inl e \<Rightarrow> Inl e
                 | Inr f \<Rightarrow> Inr (LOAD Float (FloatLit f)))
         else if t = Some DOUBLE then
           Some (case py_float (rstrip b ''Dd'') of Inl e \<Rightarrow> Inl e
                 | Inr f \<Rightarrow> Inr (LOAD Double (FloatLit f)))
         else if t = Some STRING then Some (Inr (LOAD String (StrLit (unescape b))))
         else None)"

text \<open>
  The mutually recursive part of the parser: \<^verbatim>\<open>compile_statement\<close>, the statement loop
  of a block, \<^verbatim>\<open>compile_function_call\<close>, its argument loop, \<^verbatim>\<open>compile_expression\<close>,
  \<^verbatim>\<open>compile_operation\<close> and \<^verbatim>\<open>compile_primary\<close>. Each takes the lexer and the command
  list it appends to, and returns both. The body of each is written first, with the
  functions it calls as arguments; the recursion is closed below, on the fuel counter,
  of which every call uses one unit.
\<close>

type_synonym Parser =
  "Lexer \<Rightarrow> ImportMap \<Rightarrow> Parameters \<Rightarrow> Command list \<Rightarrow> error + Command list \<times> Lexer"

type_synonym ArgumentsParser =
  "Lexer \<Rightarrow> ImportMap \<Rightarrow> Parameters \<Rightarrow> Command list \<Rightarrow> nat
    \<Rightarrow> error + Command list \<times> nat \<times> Lexer"

type_synonym OperationParser =
  "Lexer \<Rightarrow> ImportMap \<Rightarrow> Parameters \<Rightarrow> Command list \<Rightarrow> nat \<Rightarrow> error + Command list \<times> Lexer"

definition statement_call :: "Parser \<Rightarrow> Parser" where
  "statement_call function_call lx imports parameters commands =
     (case function_call lx imports parameters commands of Inl e \<Rightarrow> Inl e
      | Inr (commands1, lx1) \<Rightarrow>
          (case next_lexeme lx1 of Inl e \<Rightarrow> Inl e
           | Inr (semi, lx2) \<Rightarrow>
               if lexeme_body semi \<noteq> Some '';''
               then Inl (compilation_error (input lx) (lexeme_position semi))
               else Inr (commands1, lx2)))"

definition statement_assignment :: "Parser \<Rightarrow> nat \<Rightarrow> Lexeme \<Rightarrow> Parser" where
  "statement_assignment expression n lexeme lx imports parameters commands =
     (case skip_lexeme lx of Inl e \<Rightarrow> Inl e
      | Inr lx1 \<Rightarrow>
          (case assignment_path n lx1 [lexeme] of Inl e \<Rightarrow> Inl e
           | Inr (path, lx2) \<Rightarrow>
               (case next_lexeme lx2 of Inl e \<Rightarrow> Inl e
                | Inr (eq, lx3) \<Rightarrow>
                    if lexeme_body eq \<noteq> Some ''=''
                    then Inl (compilation_error (input lx) (lexeme_position eq))
                    else
                      (case expression lx3 imports parameters commands of Inl e \<Rightarrow> Inl e
                       | Inr (commands1, lx4) \<Rightarrow>
                           (case next_lexeme lx4 of Inl e \<Rightarrow> Inl e
                            | Inr (semi, lx5) \<Rightarrow>
                                if lexeme_body semi \<noteq> Some '';''
                                then Inl (compilation_error (input lx)
                                           (lexeme_position semi))
                                else Inr (commands1 @ assignment_commands path, lx5))))))"

definition statement_var :: "Parser \<Rightarrow> Lexeme \<Rightarrow> Parser" where
  "statement_var expression lexeme lx imports parameters commands =
     (case skip_lexeme lx of Inl e \<Rightarrow> Inl e
      | Inr lx1 \<Rightarrow>
          (case next_lexeme lx1 of Inl e \<Rightarrow> Inl e
           | Inr (name, lx2) \<Rightarrow>
               if lexeme_type name \<noteq> Some IDENTIFIER
               then Inl (compilation_error (input lx) (lexeme_position lexeme))
               else
                 (case next_lexeme lx2 of Inl e \<Rightarrow> Inl e
                  | Inr (eq, lx3) \<Rightarrow>
                      if lexeme_body eq \<noteq> Some ''=''
                      then Inl (compilation_error (input lx) (lexeme_position eq))
                      else
                        (case expression lx3 imports parameters commands of Inl e \<Rightarrow> Inl e
                         | Inr (commands1, lx4) \<Rightarrow>
                             (case next_lexeme lx4 of Inl e \<Rightarrow> Inl e
                              | Inr (semi, lx5) \<Rightarrow>
                                  if lexeme_body semi \<noteq> Some '';''
                                  then Inl (compilation_error (input lx)
                                             (lexeme_position semi))
                                  else Inr (commands1 @
                                         [Command (lexeme_position name)
                                            (DECLARE_VAR (lexeme_text name))],
                                       lx5))))))"

definition statement_if :: "Parser \<Rightarrow> Parser \<Rightarrow> Parser" where
  "statement_if expression statements lx imports parameters commands =
     (case next_lexeme lx of Inl e \<Rightarrow> Inl e
      | Inr (keyword, lx1) \<Rightarrow>
          (case next_lexeme lx1 of Inl e \<Rightarrow> Inl e
           | Inr (lpar, lx2) \<Rightarrow>
               if lexeme_body lpar \<noteq> Some ''(''
               then Inl (compilation_error (input lx) (lexeme_position lpar))
               else
                 (case expression lx2 imports parameters commands of Inl e \<Rightarrow> Inl e
                  | Inr (commands1, lx3) \<Rightarrow>
                      (case next_lexeme lx3 of Inl e \<Rightarrow> Inl e
                       | Inr (rpar, lx4) \<Rightarrow>
                           if lexeme_body rpar \<noteq> Some '')''
                           then Inl (compilation_error (input lx) (lexeme_position rpar))
                           else
                             (case next_lexeme lx4 of Inl e \<Rightarrow> Inl e
                              | Inr (lbrace, lx5) \<Rightarrow>
                                  if lexeme_body lbrace \<noteq> Some ''{''
                                  then Inl (compilation_error (input lx)
                                             (lexeme_position lbrace))
                                  else
                                    (case statements lx5 imports parameters [] of
                                       Inl e \<Rightarrow> Inl e
                                     | Inr (block_commands, lx6) \<Rightarrow>
                                         (case next_lexeme lx6 of Inl e \<Rightarrow> Inl e
                                          | Inr (rbrace, lx7) \<Rightarrow>
                                              if lexeme_body rbrace \<noteq> Some ''}''
                                              then Inl (compilation_error (input lx)
                                                         (lexeme_position rbrace))
                                              else Inr (commands1 @
                                                     [Command (lexeme_position keyword)
                                                        (DO_IF block_commands)],
                                                   lx7))))))))"

definition compile_statement_body :: "Parser \<Rightarrow> Parser \<Rightarrow> Parser \<Rightarrow> nat \<Rightarrow> Parser" where
  "compile_statement_body function_call expression statements n lx imports parameters
       commands =
     (case peek_lexeme lx of Inl e \<Rightarrow> Inl e
      | Inr lexeme \<Rightarrow>
          if lexeme_type lexeme = Some IDENTIFIER \<and> body_in lexeme (map fst imports)
          then statement_call function_call lx imports parameters commands
          else if lexeme_type lexeme = Some IDENTIFIER
          then statement_assignment expression n lexeme lx imports parameters commands
          else if lexeme_body lexeme = Some ''var''
          then statement_var expression lexeme lx imports parameters commands
          else if lexeme_body lexeme = Some ''if''
          then statement_if expression statements lx imports parameters commands
          else Inl (compilation_error (input lx) (lexeme_position lexeme)))"

text \<open>\<^verbatim>\<open>while lexer.lookahead().body != "}": compile_statement(...)\<close>\<close>

definition compile_statements_body :: "Parser \<Rightarrow> Parser \<Rightarrow> Parser" where
  "compile_statements_body statement statements lx imports parameters commands =
     (case peek_lexeme lx of Inl e \<Rightarrow> Inl e
      | Inr lexeme \<Rightarrow>
          if lexeme_body lexeme \<noteq> Some ''}'' then
            (case statement lx imports parameters commands of Inl e \<Rightarrow> Inl e
             | Inr (commands1, lx1) \<Rightarrow> statements lx1 imports parameters commands1)
          else Inr (commands, lx))"

definition compile_function_call_body :: "ArgumentsParser \<Rightarrow> Parser" where
  "compile_function_call_body arguments lx imports parameters commands =
     (case next_lexeme lx of Inl e \<Rightarrow> Inl e
      | Inr (lexeme, lx1) \<Rightarrow>
          (case (case lexeme_body lexeme of None \<Rightarrow> None | Some name \<Rightarrow> map_of imports name)
           of
             None \<Rightarrow> Inl (compilation_error (input lx) (lexeme_position lexeme))
           | Some path \<Rightarrow>
               (case next_lexeme lx1 of Inl e \<Rightarrow> Inl e
                | Inr (lpar, lx2) \<Rightarrow>
                    if lexeme_body lpar \<noteq> Some ''(''
                    then Inl (compilation_error (input lx) (lexeme_position lpar))
                    else
                      (case arguments lx2 imports parameters commands 0 of Inl e \<Rightarrow> Inl e
                       | Inr (commands1, argc, lx3) \<Rightarrow>
                           (case next_lexeme lx3 of Inl e \<Rightarrow> Inl e
                            | Inr (rpar, lx4) \<Rightarrow>
                                if lexeme_body rpar \<noteq> Some '')''
                                then Inl (compilation_error (input lx)
                                           (lexeme_position rpar))
                                else Inr (commands1 @
                                       [Command (lexeme_position lexeme) (CALL path argc)],
                                     lx4))))))"

text \<open>The argument loop of a call, left by \<^verbatim>\<open>break\<close> where no comma follows.\<close>

definition compile_arguments_body :: "Parser \<Rightarrow> ArgumentsParser \<Rightarrow> ArgumentsParser" where
  "compile_arguments_body expression arguments lx imports parameters commands argc =
     (case peek_lexeme lx of Inl e \<Rightarrow> Inl e
      | Inr lexeme \<Rightarrow>
          if lexeme_body lexeme \<noteq> Some '')'' then
            (case expression lx imports parameters commands of Inl e \<Rightarrow> Inl e
             | Inr (commands1, lx1) \<Rightarrow>
                 (case peek_lexeme lx1 of Inl e \<Rightarrow> Inl e
                  | Inr comma \<Rightarrow>
                      if lexeme_body comma = Some '',''
                      then (case skip_lexeme lx1 of Inl e \<Rightarrow> Inl e
                            | Inr lx2 \<Rightarrow>
                                arguments lx2 imports parameters commands1 (argc + 1))
                      else Inr (commands1, argc + 1, lx1)))
          else Inr (commands, argc, lx))"

definition compile_expression_body :: "Parser \<Rightarrow> OperationParser \<Rightarrow> Parser" where
  "compile_expression_body primary operation' lx imports parameters commands =
     (case primary lx imports parameters commands of Inl e \<Rightarrow> Inl e
      | Inr (commands1, lx1) \<Rightarrow> operation' lx1 imports parameters commands1 0)"

text \<open>
  \<^verbatim>\<open>compile_operation\<close>: the \<^verbatim>\<open>while\<close> loop continues by the last call, at the same
  precedence. The operator's command is appended right after the primary that follows
  the operator, before the call for the next precedence.
\<close>

definition compile_operation_body :: "Parser \<Rightarrow> OperationParser \<Rightarrow> OperationParser" where
  "compile_operation_body primary operation' lx imports parameters commands precedence =
     (case peek_lexeme lx of Inl e \<Rightarrow> Inl e
      | Inr lexeme \<Rightarrow>
          if body_in lexeme (operators_from precedence) then
            (case next_lexeme lx of Inl e \<Rightarrow> Inl e
             | Inr (operator, lx1) \<Rightarrow>
                 (case primary lx1 imports parameters commands of Inl e \<Rightarrow> Inl e
                  | Inr (commands1, lx2) \<Rightarrow>
                      (case map_of operations (lexeme_text operator) of
                         None \<Rightarrow> Inl (Raised KeyError)
                       | Some op \<Rightarrow>
                           (case operation' lx2 imports parameters
                                   (commands1 @ [Command (lexeme_position operator) op])
                                   (precedence +
                                      (if operators_from (precedence + 1) \<noteq> [] then 1
                                       else 0)) of
                              Inl e \<Rightarrow> Inl e
                            | Inr (commands2, lx3) \<Rightarrow>
                                operation' lx3 imports parameters commands2 precedence))))
          else Inr (commands, lx))"

text \<open>
  \<^verbatim>\<open>compile_primary\<close>: a call returns at once; every other primary appends one command
  and then consumes its lexeme.
\<close>

definition primary_operation :: "Parameters \<Rightarrow> Lexeme \<Rightarrow> (exception + Operation) option" where
  "primary_operation parameters lexeme =
     (if lexeme_type lexeme = Some IDENTIFIER then
        (if body_in lexeme (map fst parameters) then
           Some (case get_arg_index (map fst parameters) (lexeme_text lexeme) 0 of
                   Inl e \<Rightarrow> Inl e | Inr index \<Rightarrow> Inr (GET_ARG index))
         else Some (Inr (GET_VAR (lexeme_text lexeme))))
      else literal_operation lexeme)"

definition compile_primary_body :: "Parser \<Rightarrow> Parser" where
  "compile_primary_body function_call lx imports parameters commands =
     (case peek_lexeme lx of Inl e \<Rightarrow> Inl e
      | Inr lexeme \<Rightarrow>
          if lexeme_type lexeme = Some IDENTIFIER \<and> body_in lexeme (map fst imports)
          then function_call lx imports parameters commands
          else
            (case primary_operation parameters lexeme of
               None \<Rightarrow> Inl (compilation_error (input lx) (lexeme_position lexeme))
             | Some (Inl e) \<Rightarrow> Inl (Raised e)
             | Some (Inr op) \<Rightarrow>
                 (case skip_lexeme lx of Inl e \<Rightarrow> Inl e
                  | Inr lx1 \<Rightarrow>
                      Inr (commands @ [Command (lexeme_position lexeme) op], lx1))))"

fun compile_statement :: "nat \<Rightarrow> Parser"
  and compile_statements :: "nat \<Rightarrow> Parser"
  and compile_function_call :: "nat \<Rightarrow> Parser"
  and compile_arguments :: "nat \<Rightarrow> ArgumentsParser"
  and compile_expression :: "nat \<Rightarrow> Parser"
  and compile_operation :: "nat \<Rightarrow> OperationParser"
  and compile_primary :: "nat \<Rightarrow> Parser"
where
  "compile_statement 0 = (\<lambda>lx imports parameters commands. Inl OutOfFuel)"
| "compile_statement (Suc n) =
     compile_statement_body (compile_function_call n) (compile_expression n)
       (compile_statements n) n"
| "compile_statements 0 = (\<lambda>lx imports parameters commands. Inl OutOfFuel)"
| "compile_statements (Suc n) =
     compile_statements_body (compile_statement n) (compile_statements n)"
| "compile_function_call 0 = (\<lambda>lx imports parameters commands. Inl OutOfFuel)"
| "compile_function_call (Suc n) = compile_function_call_body (compile_arguments n)"
| "compile_arguments 0 = (\<lambda>lx imports parameters commands argc. Inl OutOfFuel)"
| "compile_arguments (Suc n) =
     compile_arguments_body (compile_expression n) (compile_arguments n)"
| "compile_expression 0 = (\<lambda>lx imports parameters commands. Inl OutOfFuel)"
| "compile_expression (Suc n) =
     compile_expression_body (compile_primary n) (compile_operation n)"
| "compile_operation 0 = (\<lambda>lx imports parameters commands precedence. Inl OutOfFuel)"
| "compile_operation (Suc n) =
     compile_operation_body (compile_primary n) (compile_operation n)"
| "compile_primary 0 = (\<lambda>lx imports parameters commands. Inl OutOfFuel)"
| "compile_primary (Suc n) = compile_primary_body (compile_function_call n)"


section \<open>Declarations, blocks and files\<close>

text \<open>
  The parameter loop of a declaration. Its three error branches call
  \<^verbatim>\<open>CompilationError\<close> with one argument too many, which raises \<^verbatim>\<open>TypeError\<close>.
\<close>

type_synonym ParametersParser = "Lexer \<Rightarrow> Parameters \<Rightarrow> error + Parameters \<times> Lexer"

definition parse_parameters_body :: "ParametersParser \<Rightarrow> ParametersParser" where
  "parse_parameters_body continue lx parameters =
     (case peek_lexeme lx of Inl e \<Rightarrow> Inl e
      | Inr rpar \<Rightarrow>
          if lexeme_body rpar \<noteq> Some '')'' then
            (case next_lexeme lx of Inl e \<Rightarrow> Inl e
             | Inr (lexeme, lx1) \<Rightarrow>
                 if lexeme_type lexeme \<noteq> Some IDENTIFIER then Inl (Raised TypeError)
                 else
                   (case next_lexeme lx1 of Inl e \<Rightarrow> Inl e
                    | Inr (colon, lx2) \<Rightarrow>
                        if lexeme_body colon \<noteq> Some '':'' then Inl (Raised TypeError)
                        else
                          (case next_lexeme lx2 of Inl e \<Rightarrow> Inl e
                           | Inr (ptype, lx3) \<Rightarrow>
                               if lexeme_type ptype \<noteq> Some TYPE' then Inl (Raised TypeError)
                               else
                                 (case getattr_CubentType (lexeme_text ptype) of
                                    Inl e \<Rightarrow> Inl (Raised e)
                                  | Inr t \<Rightarrow>
                                      (case peek_lexeme lx3 of Inl e \<Rightarrow> Inl e
                                       | Inr comma \<Rightarrow>
                                           if lexeme_body comma = Some '',''
                                           then (case skip_lexeme lx3 of Inl e \<Rightarrow> Inl e
                                                 | Inr lx4 \<Rightarrow>
                                                     continue lx4
                                                       (dict_set parameters
                                                          (lexeme_text lexeme) t))
                                           else Inr (dict_set parameters
                                                       (lexeme_text lexeme) t,
                                                     lx3))))))
          else Inr (parameters, lx))"

primrec parse_parameters :: "nat \<Rightarrow> ParametersParser" where
  "parse_parameters 0 = (\<lambda>lx parameters. Inl OutOfFuel)"
| "parse_parameters (Suc n) = parse_parameters_body (parse_parameters n)"

text \<open>
  What follows the parameters in both declarations: \<^verbatim>\<open>)\<close>, \<^verbatim>\<open>:\<close> and the return type,
  whose name is returned.
\<close>

definition parse_return_type :: "Lexer \<Rightarrow> error + string \<times> Lexer" where
  "parse_return_type lx =
     (case next_lexeme lx of Inl e \<Rightarrow> Inl e
      | Inr (rpar, lx1) \<Rightarrow>
          if lexeme_body rpar \<noteq> Some '')''
          then Inl (compilation_error (input lx) (lexeme_position rpar))
          else
            (case next_lexeme lx1 of Inl e \<Rightarrow> Inl e
             | Inr (colon, lx2) \<Rightarrow>
                 if lexeme_body colon \<noteq> Some '':''
                 then Inl (compilation_error (input lx) (lexeme_position colon))
                 else
                   (case next_lexeme lx2 of Inl e \<Rightarrow> Inl e
                    | Inr (rtype, lx3) \<Rightarrow>
                        if lexeme_type rtype \<noteq> Some TYPE'
                        then Inl (compilation_error (input lx) (lexeme_position rtype))
                        else Inr (lexeme_text rtype, lx3))))"

text \<open>
  The \<^verbatim>\<open>function\<close> branch of \<^verbatim>\<open>compile_structure\<close>, after the keyword. The descriptor is
  appended to \<^verbatim>\<open>self.functions\<close>; no earlier descriptor is looked at.
\<close>

definition compile_function ::
    "nat \<Rightarrow> Lexer \<Rightarrow> string list \<Rightarrow> ImportMap \<Rightarrow> Function list
      \<Rightarrow> error + Function list \<times> Lexer" where
  "compile_function n lx namespace imports functions =
     (case next_lexeme lx of Inl e \<Rightarrow> Inl e
      | Inr (name, lx1) \<Rightarrow>
          if lexeme_type name \<noteq> Some IDENTIFIER then Inl (Raised TypeError)
          else
            (case next_lexeme lx1 of Inl e \<Rightarrow> Inl e
             | Inr (lpar, lx2) \<Rightarrow>
                 if lexeme_body lpar \<noteq> Some ''('' then Inl (Raised TypeError)
                 else
                   (case parse_parameters n lx2 [] of Inl e \<Rightarrow> Inl e
                    | Inr (parameters, lx3) \<Rightarrow>
                        (case parse_return_type lx3 of Inl e \<Rightarrow> Inl e
                         | Inr (return_type, lx4) \<Rightarrow>
                             (case next_lexeme lx4 of Inl e \<Rightarrow> Inl e
                              | Inr (lbrace, lx5) \<Rightarrow>
                                  if lexeme_body lbrace \<noteq> Some ''{''
                                  then Inl (compilation_error (input lx)
                                             (lexeme_position lbrace))
                                  else
                                    (case compile_statements n lx5 imports parameters []
                                     of Inl e \<Rightarrow> Inl e
                                     | Inr (commands, lx6) \<Rightarrow>
                                         (case next_lexeme lx6 of Inl e \<Rightarrow> Inl e
                                          | Inr (rbrace, lx7) \<Rightarrow>
                                              if lexeme_body rbrace \<noteq> Some ''}''
                                              then Inl (compilation_error (input lx)
                                                         (lexeme_position lbrace))
                                              else
                                                (case getattr_CubentType return_type of
                                                   Inl e \<Rightarrow> Inl (Raised e)
                                                 | Inr t \<Rightarrow>
                                                     Inr (functions @
                                                        [CubentFunction
                                                           (namespace @ [lexeme_text name])
                                                           parameters t commands],
                                                        lx7)))))))))"

text \<open>
  \<^verbatim>\<open>location.split(":", 2)\<close> unpacked into two names: \<^verbatim>\<open>ValueError\<close> where the location
  has two colons or more; without a colon the namespace is \<^verbatim>\<open>minecraft\<close>.
\<close>

definition split_location :: "string \<Rightarrow> exception + string \<times> string" where
  "split_location location =
     (if CHR '':'' \<in> set location then
        (if length (filter (\<lambda>c. c = CHR '':'') location) \<ge> 2 then Inl ValueError
         else Inr (takeWhile (\<lambda>c. c \<noteq> CHR '':'') location,
                   drop 1 (dropWhile (\<lambda>c. c \<noteq> CHR '':'') location)))
      else Inr (''minecraft'', location))"

definition compile_mcfunction ::
    "nat \<Rightarrow> Lexer \<Rightarrow> string list \<Rightarrow> Function list \<Rightarrow> error + Function list \<times> Lexer" where
  "compile_mcfunction n lx namespace functions =
     (case next_lexeme lx of Inl e \<Rightarrow> Inl e
      | Inr (loc, lx1) \<Rightarrow>
          if lexeme_type loc \<noteq> Some STRING
          then Inl (compilation_error (input lx) (lexeme_position loc))
          else
            (case split_location (unescape (lexeme_text loc)) of Inl e \<Rightarrow> Inl (Raised e)
             | Inr (mcfunction_namespace, mcfunction_path) \<Rightarrow>
                 (case next_lexeme lx1 of Inl e \<Rightarrow> Inl e
                  | Inr (name, lx2) \<Rightarrow>
                      if lexeme_type name \<noteq> Some IDENTIFIER
                      then Inl (compilation_error (input lx) (lexeme_position name))
                      else
                        (case next_lexeme lx2 of Inl e \<Rightarrow> Inl e
                         | Inr (lpar, lx3) \<Rightarrow>
                             if lexeme_body lpar \<noteq> Some ''(''
                             then Inl (compilation_error (input lx) (lexeme_position name))
                             else
                               (case parse_parameters n lx3 [] of Inl e \<Rightarrow> Inl e
                                | Inr (parameters, lx4) \<Rightarrow>
                                    (case parse_return_type lx4 of Inl e \<Rightarrow> Inl e
                                     | Inr (return_type, lx5) \<Rightarrow>
                                         (case next_lexeme lx5 of Inl e \<Rightarrow> Inl e
                                          | Inr (semi, lx6) \<Rightarrow>
                                              if lexeme_body semi \<noteq> Some '';''
                                              then Inl (compilation_error (input lx)
                                                         (lexeme_position semi))
                                              else
                                                (case getattr_CubentType return_type of
                                                   Inl e \<Rightarrow> Inl (Raised e)
                                                 | Inr t \<Rightarrow>
                                                     Inr (functions @
                                                        [MCFunction
                                                           (namespace @ [lexeme_text name])
                                                           parameters t
                                                           (mcfunction_namespace @ '':'' @
                                                              mcfunction_path)],
                                                        lx6)))))))))"

definition compile_structure ::
    "nat \<Rightarrow> Lexer \<Rightarrow> string list \<Rightarrow> ImportMap \<Rightarrow> Function list
      \<Rightarrow> error + Function list \<times> Lexer" where
  "compile_structure n lx namespace imports functions =
     (case next_lexeme lx of Inl e \<Rightarrow> Inl e
      | Inr (lexeme, lx1) \<Rightarrow>
          if lexeme_body lexeme = Some ''function''
          then compile_function n lx1 namespace imports functions
          else if lexeme_body lexeme = Some ''mcfunction''
          then compile_mcfunction n lx1 namespace functions
          else Inl (compilation_error (input lx) (lexeme_position lexeme)))"

text \<open>\<^verbatim>\<open>while lexer.lookahead().body != "}": compile_structure(...)\<close>\<close>

type_synonym FunctionsParser = "Lexer \<Rightarrow> Function list \<Rightarrow> error + Function list \<times> Lexer"

definition compile_structures_body ::
    "nat \<Rightarrow> string list \<Rightarrow> ImportMap \<Rightarrow> FunctionsParser \<Rightarrow> FunctionsParser" where
  "compile_structures_body n namespace imports continue lx functions =
     (case peek_lexeme lx of Inl e \<Rightarrow> Inl e
      | Inr lexeme \<Rightarrow>
          if lexeme_body lexeme \<noteq> Some ''}'' then
            (case compile_structure n lx namespace imports functions of Inl e \<Rightarrow> Inl e
             | Inr (functions1, lx1) \<Rightarrow> continue lx1 functions1)
          else Inr (functions, lx))"

primrec compile_structures ::
    "nat \<Rightarrow> nat \<Rightarrow> string list \<Rightarrow> ImportMap \<Rightarrow> FunctionsParser" where
  "compile_structures 0 n namespace imports = (\<lambda>lx functions. Inl OutOfFuel)"
| "compile_structures (Suc k) n namespace imports =
     compile_structures_body n namespace imports (compile_structures k n namespace imports)"

text \<open>
  The loop over the dots of a namespace name. It consumes the dot and appends the body
  of \<^verbatim>\<open>lexeme\<close>, which is still the first identifier: the identifier after the dot is
  not read.
\<close>

type_synonym NamespaceParser = "Lexer \<Rightarrow> string list \<Rightarrow> error + string list \<times> Lexer"

definition namespace_dots_body :: "Lexeme \<Rightarrow> NamespaceParser \<Rightarrow> NamespaceParser" where
  "namespace_dots_body lexeme continue lx namespace =
     (case peek_lexeme lx of Inl e \<Rightarrow> Inl e
      | Inr dot \<Rightarrow>
          if lexeme_body dot = Some ''.'' then
            (case skip_lexeme lx of Inl e \<Rightarrow> Inl e
             | Inr lx1 \<Rightarrow>
                 if lexeme_type lexeme = Some IDENTIFIER
                 then continue lx1 (namespace @ [lexeme_text lexeme])
                 else Inl (compilation_error (input lx) (lexeme_position lexeme)))
          else Inr (namespace, lx))"

primrec namespace_dots :: "nat \<Rightarrow> Lexeme \<Rightarrow> NamespaceParser" where
  "namespace_dots 0 lexeme = (\<lambda>lx namespace. Inl OutOfFuel)"
| "namespace_dots (Suc k) lexeme = namespace_dots_body lexeme (namespace_dots k lexeme)"

definition compile_namespace ::
    "nat \<Rightarrow> Lexer \<Rightarrow> ImportMap \<Rightarrow> Function list \<Rightarrow> error + Function list \<times> Lexer" where
  "compile_namespace n lx imports functions =
     (case next_lexeme lx of Inl e \<Rightarrow> Inl e
      | Inr (lexeme, lx1) \<Rightarrow>
          if lexeme_type lexeme \<noteq> Some IDENTIFIER
          then Inl (compilation_error (input lx) (lexeme_position lexeme))
          else
            (case namespace_dots n lexeme lx1 [lexeme_text lexeme] of Inl e \<Rightarrow> Inl e
             | Inr (namespace, lx2) \<Rightarrow>
                 (case next_lexeme lx2 of Inl e \<Rightarrow> Inl e
                  | Inr (lbrace, lx3) \<Rightarrow>
                      if lexeme_body lbrace \<noteq> Some ''{''
                      then Inl (compilation_error (input lx) (lexeme_position lexeme))
                      else
                        (case compile_structures n n namespace imports lx3 functions of
                           Inl e \<Rightarrow> Inl e
                         | Inr (functions1, lx4) \<Rightarrow>
                             (case next_lexeme lx4 of Inl e \<Rightarrow> Inl e
                              | Inr (rbrace, lx5) \<Rightarrow>
                                  if lexeme_body rbrace \<noteq> Some ''}''
                                  then Inl (compilation_error (input lx)
                                             (lexeme_position lexeme))
                                  else Inr (functions1, lx5))))))"

definition compile_block ::
    "nat \<Rightarrow> Lexer \<Rightarrow> ImportMap \<Rightarrow> Function list \<Rightarrow> error + Function list \<times> Lexer" where
  "compile_block n lx imports functions =
     (case next_lexeme lx of Inl e \<Rightarrow> Inl e
      | Inr (lexeme, lx1) \<Rightarrow>
          if lexeme_body lexeme = Some ''namespace''
          then compile_namespace n lx1 imports functions
          else if lexeme_body lexeme = Some ''load'' then
            (case next_lexeme lx1 of Inl e \<Rightarrow> Inl e
             | Inr (lbrace, lx2) \<Rightarrow>
                 if lexeme_body lbrace \<noteq> Some ''{''
                 then Inl (compilation_error (input lx) (lexeme_position lexeme))
                 else
                   (case next_lexeme lx2 of Inl e \<Rightarrow> Inl e
                    | Inr (rbrace, lx3) \<Rightarrow>
                        if lexeme_body rbrace \<noteq> Some ''}''
                        then Inl (compilation_error (input lx) (lexeme_position lexeme))
                        else Inr (functions, lx3)))
          else if lexeme_body lexeme = Some ''tick'' then Inr (functions, lx1)
          else Inl (compilation_error (input lx) (lexeme_position lexeme)))"

text \<open>\<^verbatim>\<open>while lexer.lookahead().type != LexemeType.EOF: compile_block(...)\<close>\<close>

definition compile_blocks_body :: "nat \<Rightarrow> ImportMap \<Rightarrow> FunctionsParser \<Rightarrow> FunctionsParser" where
  "compile_blocks_body n imports continue lx functions =
     (case peek_lexeme lx of Inl e \<Rightarrow> Inl e
      | Inr lexeme \<Rightarrow>
          if lexeme_type lexeme \<noteq> Some EOF then
            (case compile_block n lx imports functions of Inl e \<Rightarrow> Inl e
             | Inr (functions1, lx1) \<Rightarrow> continue lx1 functions1)
          else Inr (functions, lx))"

primrec compile_blocks :: "nat \<Rightarrow> nat \<Rightarrow> ImportMap \<Rightarrow> FunctionsParser" where
  "compile_blocks 0 n imports = (\<lambda>lx functions. Inl OutOfFuel)"
| "compile_blocks (Suc k) n imports =
     compile_blocks_body n imports (compile_blocks k n imports)"

text \<open>\<^verbatim>\<open>parse_imports\<close>: the loop over the dots of one import, then the loop over imports.\<close>

type_synonym ImportPathParser =
  "Lexer \<Rightarrow> Lexeme \<Rightarrow> string list \<Rightarrow> error + string list \<times> Lexeme \<times> Lexer"

definition import_path_body :: "string \<Rightarrow> ImportPathParser \<Rightarrow> ImportPathParser" where
  "import_path_body source_code continue lx lexeme path =
     (if lexeme_body lexeme = Some ''.'' then
        (case next_lexeme lx of Inl e \<Rightarrow> Inl e
         | Inr (part, lx1) \<Rightarrow>
             if lexeme_type part \<noteq> Some IDENTIFIER
             then Inl (compilation_error source_code (lexeme_position part))
             else
               (case next_lexeme lx1 of Inl e \<Rightarrow> Inl e
                | Inr (lexeme1, lx2) \<Rightarrow> continue lx2 lexeme1 (path @ [lexeme_text part])))
      else Inr (path, lexeme, lx))"

primrec import_path :: "nat \<Rightarrow> string \<Rightarrow> ImportPathParser" where
  "import_path 0 source_code = (\<lambda>lx lexeme path. Inl OutOfFuel)"
| "import_path (Suc k) source_code =
     import_path_body source_code (import_path k source_code)"

type_synonym ImportsParser = "Lexer \<Rightarrow> ImportMap \<Rightarrow> error + ImportMap \<times> Lexer"

definition parse_imports_body :: "nat \<Rightarrow> ImportsParser \<Rightarrow> ImportsParser" where
  "parse_imports_body n continue lx imports =
     (case peek_lexeme lx of Inl e \<Rightarrow> Inl e
      | Inr keyword \<Rightarrow>
          if lexeme_body keyword = Some ''import'' then
            (case skip_lexeme lx of Inl e \<Rightarrow> Inl e
             | Inr lx1 \<Rightarrow>
                 (case next_lexeme lx1 of Inl e \<Rightarrow> Inl e
                  | Inr (first, lx2) \<Rightarrow>
                      if lexeme_type first \<noteq> Some IDENTIFIER
                      then Inl (compilation_error (input lx) (lexeme_position first))
                      else
                        (case next_lexeme lx2 of Inl e \<Rightarrow> Inl e
                         | Inr (dot, lx3) \<Rightarrow>
                             if lexeme_body dot \<noteq> Some ''.''
                             then Inl (compilation_error (input lx) (lexeme_position dot))
                             else
                               (case import_path n (input lx) lx3 dot [lexeme_text first]
                                of Inl e \<Rightarrow> Inl e
                                | Inr (path, lexeme, lx4) \<Rightarrow>
                                    (case (if lexeme_body lexeme = Some ''as'' then
                                             (case next_lexeme lx4 of Inl e \<Rightarrow> Inl e
                                              | Inr (alias, lx5) \<Rightarrow>
                                                  if lexeme_type alias \<noteq> Some IDENTIFIER
                                                  then Inl (compilation_error (input lx)
                                                             (lexeme_position alias))
                                                  else
                                                    (case next_lexeme lx5 of
                                                       Inl e \<Rightarrow> Inl e
                                                     | Inr (lexeme1, lx6) \<Rightarrow>
                                                         Inr (lexeme_text alias, lexeme1,
                                                              lx6)))
                                           else Inr (last path, lexeme, lx4)) of
                                       Inl e \<Rightarrow> Inl e
                                     | Inr (name, semi, lx7) \<Rightarrow>
                                         if lexeme_body semi \<noteq> Some '';''
                                         then Inl (compilation_error (input lx)
                                                    (lexeme_position semi))
                                         else continue lx7 (dict_set imports name path))))))
          else Inr (imports, lx))"

primrec parse_imports :: "nat \<Rightarrow> nat \<Rightarrow> ImportsParser" where
  "parse_imports 0 n = (\<lambda>lx imports. Inl OutOfFuel)"
| "parse_imports (Suc k) n = parse_imports_body n (parse_imports k n)"

text \<open>
  \<^verbatim>\<open>compile_file\<close> on the text of the file: the descriptors of its functions are appended
  to those of the files compiled before.
\<close>

definition compile_file :: "nat \<Rightarrow> string \<Rightarrow> Function list \<Rightarrow> error + Function list" where
  "compile_file n source functions =
     (case parse_imports n n (Lexer_init source) [] of Inl e \<Rightarrow> Inl e
      | Inr (imports, lx) \<Rightarrow>
          (case compile_blocks n n imports lx functions of Inl e \<Rightarrow> Inl e
           | Inr (functions1, lx1) \<Rightarrow> Inr functions1))"

section \<open>Emitter (\<^verbatim>\<open>write_commands\<close> of src/src/compiler.py)\<close>

text \<open>
  \<^verbatim>\<open>class Scope\<close>: a parent and a \<^verbatim>\<open>dict\<close> of variables. A child scope is used only
  while its helper function is written; the parent is not changed in that time, so the
  parent is kept by value.
\<close>

datatype Scope = Scope (scope_parent: "Scope option") (scope_variables: "(string \<times> CubentType) list")

definition declare_variable :: "Scope \<Rightarrow> string \<Rightarrow> CubentType \<Rightarrow> Scope option" where
  "declare_variable scope variable_name variable_type =
     (if variable_name \<in> fst ` set (scope_variables scope) then None
      else Some (Scope (scope_parent scope)
                   (dict_set (scope_variables scope) variable_name variable_type)))"

fun get_variable :: "Scope \<Rightarrow> string \<Rightarrow> CubentType option" where
  "get_variable (Scope parent variables) variable_name =
     (case map_of variables variable_name of
        Some t \<Rightarrow> Some t
      | None \<Rightarrow> (case parent of None \<Rightarrow> None | Some p \<Rightarrow> get_variable p variable_name))"

definition CUBENT_STORAGE :: string where
  "CUBENT_STORAGE = ''cubent:storage''"

definition CUBENT_SCOREBOARD :: string where
  "CUBENT_SCOREBOARD = ''cubent.scoreboard''"

text \<open>\<^verbatim>\<open>sep.join(parts)\<close>\<close>

fun join :: "string \<Rightarrow> string list \<Rightarrow> string" where
  "join sep [] = []"
| "join sep [x] = x"
| "join sep (x # y # ys) = x @ sep @ join sep (y # ys)"

text \<open>
  What \<^verbatim>\<open>write_commands\<close> is called with, and what it changes. The compile-time stack
  is a list whose head is the top (\<^verbatim>\<open>stack[-1]\<close>). The text of the file being written is
  the list of its lines: every \<^verbatim>\<open>write\<close> of the source writes whole lines. \<open>helpers\<close>
  are the files of the helper functions written so far, by name, and \<open>uuids\<close> counts the
  calls of \<^verbatim>\<open>uuid.uuid4()\<close>, whose results are the stream \<open>env_uuid\<close>.
\<close>

record Env =
  env_build_uuid :: string
  env_path :: "string list"
  env_parameters :: Parameters
  env_functions :: "Function list"
  env_uuid :: "nat \<Rightarrow> string"

record Emitter =
  stack :: "CubentType list"
  scope :: Scope
  lines :: "string list"
  helpers :: "(string \<times> string list) list"
  uuids :: nat

text \<open>\<^verbatim>\<open>build_uuid + "." + ".".join(path[:-1]) + ":" + path[-1]\<close>, for a path that is not empty.\<close>

definition function_storage :: "Env \<Rightarrow> string" where
  "function_storage env =
     env_build_uuid env @ ''.'' @ join ''.'' (butlast (env_path env)) @ '':''
       @ last (env_path env)"

definition prologue :: "string \<Rightarrow> string list" where
  "prologue fs =
     [''scoreboard objectives add '' @ CUBENT_SCOREBOARD @ '' dummy'',
      ''data modify storage '' @ fs @ '' Stack set value []'',
      ''execute unless data storage '' @ fs @ '' Variables run data modify storage '' @ fs
        @ '' Variables set value {}'']"

text \<open>
  \<^verbatim>\<open>write_type_conversion\<close>: the lines written and the result. The path of \<open>Void\<close>, a
  tuple, cannot be read.
\<close>

definition numeric_sources :: "CubentType list" where
  "numeric_sources = [Boolean, Byte, Short, Int', Long, Float, Double]"

definition numeric_targets :: "CubentType list" where
  "numeric_targets = [Byte, Short, Int', Long, Float, Double]"

definition write_type_conversion ::
    "CubentType \<Rightarrow> CubentType \<Rightarrow> string \<Rightarrow> exception + bool \<times> string list" where
  "write_type_conversion current_type target_type fs =
     (if current_type = Void \<or> target_type = Void then Inl AttributeError
      else if current_type = target_type \<or> current_type = Any \<or> target_type = Any
      then Inr (True, [])
      else if current_type \<in> set numeric_sources \<and> target_type \<in> set numeric_targets
      then Inr (True,
             [''execute store result storage '' @ fs @ '' Stack[-1].Value ''
                @ map lower (type_path target_type) @ '' 1.0 run data get storage '' @ fs
                @ '' Stack[-1].Value''])
      else if current_type \<in> set numeric_sources \<and> target_type = Boolean
      then Inr (True,
             [''execute store result score 1 '' @ CUBENT_SCOREBOARD
                @ '' run data get storage '' @ fs @ '' Stack[-1].Value'',
              ''execute if score 1 '' @ CUBENT_SCOREBOARD
                @ '' matches 1.. run data modify storage '' @ fs
                @ '' Stack[-1].Value set value true'',
              ''execute if score 1 '' @ CUBENT_SCOREBOARD
                @ '' matches ..0 run data modify storage '' @ fs
                @ '' Stack[-1].Value set value false''])
      else Inr (False, []))"

text \<open>
  The text of a literal in a \<^verbatim>\<open>LOAD\<close> line. \<open>format_literal\<close> is the formatting of a
  value in an f-string (a \<^verbatim>\<open>float\<close> by the text it was read from; an \<^verbatim>\<open>int\<close> of more
  than 4300 digits exceeds the default limit of CPython for the conversion to a string,
  which raises \<^verbatim>\<open>ValueError\<close>), \<open>truthy\<close> its truth value (a \<^verbatim>\<open>float\<close> is true unless
  it is zero, and the text rounds to zero when its value is at most \<open>2 ^ - 1075\<close>, half
  the least positive double); the parser loads a
  \<open>Boolean\<close> with a \<^verbatim>\<open>bool\<close>, an integer type with an \<^verbatim>\<open>int\<close>, \<open>Float\<close> and \<open>Double\<close>
  with a \<^verbatim>\<open>float\<close> and a \<open>String\<close> with a \<^verbatim>\<open>str\<close>.
\<close>

definition format_literal :: "Literal \<Rightarrow> exception + string" where
  "format_literal v =
     (case v of BoolLit b \<Rightarrow> Inr (if b then ''True'' else ''False'')
      | IntLit i \<Rightarrow>
          (if 4300 < length (str_nat (nat \<bar>i\<bar>)) then Inl ValueError else Inr (str i))
      | FloatLit f \<Rightarrow> Inr f | StrLit s \<Rightarrow> Inr s)"

text \<open>The f-string of a value followed by a type suffix.\<close>

definition format_suffix :: "Literal \<Rightarrow> string \<Rightarrow> exception + string" where
  "format_suffix v suffix =
     (case format_literal v of Inl e \<Rightarrow> Inl e | Inr t \<Rightarrow> Inr (t @ suffix))"

definition truthy :: "Literal \<Rightarrow> bool" where
  "truthy v =
     (case v of BoolLit b \<Rightarrow> b | IntLit i \<Rightarrow> i \<noteq> 0
      | FloatLit f \<Rightarrow>
          10 ^ length (drop 1 (dropWhile (\<lambda>c. c \<noteq> CHR ''.'') f))
            < digits_val (filter (\<lambda>c. c \<noteq> CHR ''.'') f) * 2 ^ 1075
      | StrLit s \<Rightarrow> s \<noteq> [])"

text \<open>\<^verbatim>\<open>s.find(c)\<close> and \<^verbatim>\<open>s.replace(c, t)\<close> for a character \<open>c\<close>.\<close>

definition find_char :: "string \<Rightarrow> char \<Rightarrow> int" where
  "find_char s c = (if c \<in> set s then int (length (takeWhile (\<lambda>d. d \<noteq> c) s)) else - 1)"

definition replace_char :: "string \<Rightarrow> char \<Rightarrow> string \<Rightarrow> string" where
  "replace_char s c t = concat (map (\<lambda>d. if d = c then t else [d]) s)"

definition load_raw :: "CubentType \<Rightarrow> Literal \<Rightarrow> exception + string" where
  "load_raw cubent_type v =
     (if cubent_type = String then
        (case v of
           StrLit s \<Rightarrow>
             (let b = replace_char s (CHR 0x5C) [CHR 0x5C, CHR 0x5C]
              in if find_char b (CHR 0x27) \<noteq> - 1 \<and> find_char b (CHR 0x27) > find_char b (CHR 0x22)
                 then Inr ([CHR 0x22] @ replace_char b (CHR 0x22) [CHR 0x5C, CHR 0x22]
                             @ [CHR 0x22])
                 else Inr ([CHR 0x27] @ replace_char b (CHR 0x27) [CHR 0x5C, CHR 0x27]
                             @ [CHR 0x27]))
         | _ \<Rightarrow> Inl AttributeError)
      else if cubent_type = Byte then format_suffix v ''B''
      else if cubent_type = Boolean then Inr (if truthy v then ''true'' else ''false'')
      else if cubent_type = Short then format_suffix v ''S''
      else if cubent_type = Long then format_suffix v ''L''
      else if cubent_type = Float then format_suffix v ''F''
      else format_literal v)"

text \<open>
  The loop of a \<^verbatim>\<open>CALL\<close> over the parameters of the callee: each pops one type, converts
  it to the parameter's type and moves the value to the arguments.
\<close>

fun call_arguments ::
    "Position \<Rightarrow> string \<Rightarrow> (string \<times> CubentType) list \<Rightarrow> CubentType list \<Rightarrow> string list
      \<Rightarrow> error + CubentType list \<times> string list" where
  "call_arguments pos fs [] stk out = Inr (stk, out)"
| "call_arguments pos fs ((parameter_name, parameter_type) # ps) stk out =
     (case stk of
        [] \<Rightarrow> Inl (Raised IndexError)
      | argument_type # stk1 \<Rightarrow>
          (case write_type_conversion argument_type parameter_type fs of
             Inl e \<Rightarrow> Inl (Raised e)
           | Inr (ok, conv) \<Rightarrow>
               if \<not> ok then Inl (CompilationError pos)
               else call_arguments pos fs ps stk1
                      (out @ conv @
                         [''data modify storage '' @ CUBENT_STORAGE
                            @ '' Arguments append from storage '' @ fs @ '' Stack[-1]'',
                          ''data remove storage '' @ fs @ '' Stack[-1]''])))"

text \<open>
  One command other than \<^verbatim>\<open>DO_IF\<close>. A \<^verbatim>\<open>CompilationError\<close> of the emitter is at the
  position of a command, which is the position of a lexeme and so on a line of the
  source. The operations after \<^verbatim>\<open>EQ\<close> in the list have no branch in the source: the
  command is passed over.
\<close>

definition write_command :: "Env \<Rightarrow> Position \<Rightarrow> Operation \<Rightarrow> Emitter \<Rightarrow> error + Emitter" where
  "write_command env pos op st =
     (let fs = function_storage env
      in case op of
          LOAD cubent_type v \<Rightarrow>
            (case load_raw cubent_type v of
               Inl e \<Rightarrow> Inl (Raised e)
             | Inr raw \<Rightarrow>
                 Inr (st\<lparr>stack := cubent_type # stack st,
                        lines := lines st @
                          [''data modify storage '' @ fs @ '' Stack append value {Value:''
                             @ raw @ ''}'']\<rparr>))
        | DECLARE_VAR name \<Rightarrow>
            (case stack st of
               [] \<Rightarrow> Inl (Raised IndexError)
             | variable_type # stk \<Rightarrow>
                 (case declare_variable (scope st) name variable_type of
                    None \<Rightarrow> Inl (CompilationError pos)
                  | Some scope1 \<Rightarrow> Inr (st\<lparr>stack := stk, scope := scope1\<rparr>)))
        | SET_VAR name \<Rightarrow>
            (case stack st of
               [] \<Rightarrow> Inl (Raised IndexError)
             | object_type # stk \<Rightarrow>
                 (case get_variable (scope st) name of
                    None \<Rightarrow> Inl (CompilationError pos)
                  | Some variable_type \<Rightarrow>
                      if variable_type \<noteq> object_type then Inl (CompilationError pos)
                      else Inr (st\<lparr>stack := stk,
                             lines := lines st @
                               [''data modify storage '' @ fs @ '' Variables.'' @ name
                                  @ '' set from storage '' @ fs @ '' Stack[-1]'',
                                ''data remove storage '' @ fs @ '' Stack[-1]'']\<rparr>)))
        | GET_VAR name \<Rightarrow>
            (case get_variable (scope st) name of
               Some variable_type \<Rightarrow>
                 Inr (st\<lparr>stack := variable_type # stack st,
                        lines := lines st @
                          [''data modify storage '' @ fs @ '' Stack append from storage ''
                             @ fs @ '' Variables.'' @ name]\<rparr>)
             | None \<Rightarrow> Inl (CompilationError pos))
        | GET_PROP name \<Rightarrow>
            (case stack st of [] \<Rightarrow> Inl (Raised IndexError)
             | object_type # stk \<Rightarrow> Inl (Raised AttributeError))
        | SET_PROP name \<Rightarrow>
            (case stack st of [] \<Rightarrow> Inl (Raised IndexError)
             | object_type # stk \<Rightarrow> Inl (Raised AttributeError))
        | GET_ARG index \<Rightarrow> Inl (Raised KeyError)
        | CALL path argc \<Rightarrow>
            (let out = lines st @
                   [''data modify storage '' @ CUBENT_STORAGE @ '' Arguments set value []'']
             in case find (\<lambda>f. function_path f = path) (env_functions env) of
                  None \<Rightarrow> Inl (CompilationError pos)
                | Some target_function \<Rightarrow>
                    (case call_arguments pos fs (function_parameters target_function)
                            (stack st) out of
                       Inl e \<Rightarrow> Inl e
                     | Inr (stk, out1) \<Rightarrow>
                         Inr (st\<lparr>stack := stk,
                                lines := out1 @
                                  [case target_function of
                                     CubentFunction p ps r cs \<Rightarrow>
                                       ''function '' @ join ''.'' (butlast path) @ '':''
                                         @ last path
                                   | MCFunction p ps r location \<Rightarrow>
                                       ''function '' @ location]\<rparr>)))
        | ADD \<Rightarrow>
            (case stack st of
               second_type # first_type # stk \<Rightarrow>
                 if \<not> (first_type \<in> set [Byte, Short, Int', Long]
                       \<and> second_type \<in> set [Byte, Short, Int', Long])
                 then Inl (CompilationError pos)
                 else Inr (st\<lparr>stack := Int' # stk,
                        lines := lines st @
                          [''execute store result score 1 '' @ CUBENT_SCOREBOARD
                             @ '' run data get storage '' @ fs @ '' Stack[-1].Value'',
                           ''data remove storage '' @ fs @ '' Stack[-1]'',
                           ''execute store result score 2 '' @ CUBENT_SCOREBOARD
                             @ '' run data get storage '' @ fs @ '' Stack[-1].Value'',
                           ''data remove storage '' @ fs @ '' Stack[-1]'',
                           ''scoreboard players operation 1 '' @ CUBENT_SCOREBOARD
                             @ '' += 2 '' @ CUBENT_SCOREBOARD,
                           ''data modify storage '' @ fs @ '' Stack append value {}'',
                           ''execute store result storage '' @ fs @ '' Stack[-1].Value ''
                             @ map lower (type_path first_type)
                             @ '' 1.0 run scoreboard players get 1 '' @ CUBENT_SCOREBOARD]\<rparr>)
             | _ \<Rightarrow> Inl (Raised IndexError))
        | EQ \<Rightarrow>
            (case stack st of
               second_type # first_type # stk \<Rightarrow>
                 Inr (st\<lparr>stack := Boolean # stk,
                        lines := lines st @
                          [''execute store success score 1 '' @ CUBENT_SCOREBOARD
                             @ '' run data modify storage '' @ fs
                             @ '' Stack[-1] set from storage '' @ fs @ '' Stack[-2]'',
                           ''data remove storage '' @ fs @ '' Stack[-1]'',
                           ''execute if score 1 '' @ CUBENT_SCOREBOARD
                             @ '' matches 0 run data modify storage '' @ fs
                             @ '' Stack[-1].Value set value true'',
                           ''execute if score 1 '' @ CUBENT_SCOREBOARD
                             @ '' matches 1 run data modify storage '' @ fs
                             @ '' Stack[-1].Value set value false'']\<rparr>)
             | _ \<Rightarrow> Inl (Raised IndexError))
        | _ \<Rightarrow> Inr st)"

text \<open>
  \<^verbatim>\<open>DO_IF\<close>, before its block is written: the condition is popped and converted to
  \<open>Boolean\<close> (a failed conversion returns \<^verbatim>\<open>False\<close> and leaves \<^verbatim>\<open>self.error\<close> unset), then
  \<^verbatim>\<open>write_internal_function\<close> draws the name of the helper and starts its file, with an
  empty stack and a child scope. The result is the state of the caller and the state the
  block starts in.
\<close>

definition do_if_enter :: "Env \<Rightarrow> Emitter \<Rightarrow> error + Emitter \<times> Emitter" where
  "do_if_enter env st =
     (case stack st of
        [] \<Rightarrow> Inl (Raised IndexError)
      | object_type # stk \<Rightarrow>
          (case write_type_conversion object_type Boolean (function_storage env) of
             Inl e \<Rightarrow> Inl (Raised e)
           | Inr (ok, conv) \<Rightarrow>
               if \<not> ok then Inl Unexpected
               else Inr (st\<lparr>stack := stk, lines := lines st @ conv\<rparr>,
                         \<lparr>stack = [], scope = Scope (Some (scope st)) [],
                           lines = prologue (function_storage env), helpers = helpers st,
                           uuids = uuids st + 1\<rparr>)))"

text \<open>
  \<^verbatim>\<open>DO_IF\<close>, after its block: the helper's file is closed under the name drawn for it,
  and the caller writes the three lines that run it.
\<close>

definition do_if_leave :: "Env \<Rightarrow> Emitter \<Rightarrow> Emitter \<Rightarrow> Emitter" where
  "do_if_leave env st block_st =
     (let fs = function_storage env; name = env_uuid env (uuids st)
      in st\<lparr>lines := lines st @
              [''execute store result score 1 '' @ CUBENT_SCOREBOARD
                 @ '' run data get storage '' @ fs @ '' Stack[-1].Value'',
               ''data remove storage '' @ fs @ '' Stack[-1]'',
               ''execute if score 1 '' @ CUBENT_SCOREBOARD @ '' matches 1 run function ''
                 @ env_build_uuid env @ '':'' @ name],
            helpers := helpers block_st @ [(name, lines block_st)],
            uuids := uuids block_st\<rparr>)"

text \<open>The loop \<^verbatim>\<open>for command in commands\<close> of \<^verbatim>\<open>write_commands\<close>.\<close>

fun write_loop :: "Env \<Rightarrow> Command list \<Rightarrow> Emitter \<Rightarrow> error + Emitter" where
  "write_loop env [] st = Inr st"
| "write_loop env (Command pos (DO_IF block) # commands) st =
     (case do_if_enter env st of
        Inl e \<Rightarrow> Inl e
      | Inr (st1, block_st) \<Rightarrow>
          (case write_loop env block block_st of
             Inl e \<Rightarrow> Inl e
           | Inr block_st1 \<Rightarrow> write_loop env commands (do_if_leave env st1 block_st1)))"
| "write_loop env (Command pos op # commands) st =
     (case write_command env pos op st of
        Inl e \<Rightarrow> Inl e
      | Inr st1 \<Rightarrow> write_loop env commands st1)"

text \<open>
  \<^verbatim>\<open>write_commands\<close> for the file of a function: the prologue, then the commands from an
  empty stack. \<^verbatim>\<open>path[-1]\<close> raises \<^verbatim>\<open>IndexError\<close> on an empty path.
\<close>

definition write_commands ::
    "Env \<Rightarrow> Command list \<Rightarrow> Scope \<Rightarrow> (string \<times> string list) list \<Rightarrow> nat \<Rightarrow> error + Emitter" where
  "write_commands env commands scope0 helpers0 uuids0 =
     (if env_path env = [] then Inl (Raised IndexError)
      else write_loop env commands
             \<lparr>stack = [], scope = scope0, lines = prologue (function_storage env),
               helpers = helpers0, uuids = uuids0\<rparr>)"

section \<open>\<^verbatim>\<open>Compiler.compile\<close>\<close>

datatype MinecraftVersion = MinecraftVersion (major: int) (minor: int) (phase: int)

text \<open>\<^verbatim>\<open>MinecraftVersion.__lt__\<close>\<close>

definition version_lt :: "MinecraftVersion \<Rightarrow> MinecraftVersion \<Rightarrow> bool" where
  "version_lt self other =
     (major self < major other \<or> minor self < minor other \<or> phase self < phase other)"

definition MINIMAL_VERSION :: MinecraftVersion where
  "MINIMAL_VERSION = MinecraftVersion 1 14 1"

text \<open>
  The order the specification words: \<open>self\<close> is strictly below \<open>other\<close> in the
  lexicographic order on major, minor and phase. It is not part of the source.
\<close>

definition version_below :: "MinecraftVersion \<Rightarrow> MinecraftVersion \<Rightarrow> bool" where
  "version_below self other =
     (major self < major other
      \<or> (major self = major other \<and> minor self < minor other)
      \<or> (major self = major other \<and> minor self = minor other \<and> phase self < phase other))"

text \<open>
  The output directory after \<^verbatim>\<open>shutil.rmtree(out)\<close> and \<^verbatim>\<open>os.makedirs(out)\<close>: the
  directories below it and the function files written, each path a list of names below
  \<^verbatim>\<open>out\<close>, each file the list of its lines, in the order in which the files are closed.
  The metadata file, the icon and the files copied for an \<^verbatim>\<open>mcfunction\<close> are the work of
  collaborators and are left out. \<^verbatim>\<open>os.makedirs\<close> raises \<^verbatim>\<open>FileExistsError\<close> for a
  directory that exists.
\<close>

record Output =
  directories :: "string list list"
  files :: "(string list \<times> string list) list"

definition makedirs :: "string list list \<Rightarrow> string list \<Rightarrow> exception + string list list" where
  "makedirs dirs p =
     (if p \<in> set dirs then Inl FileExistsError
      else Inr (dirs @ filter (\<lambda>q. q \<notin> set dirs) (map (\<lambda>k. take k p) [1..<Suc (length p)])))"

text \<open>\<^verbatim>\<open>s.split(c)\<close> for a character \<open>c\<close>.\<close>

fun split_char :: "char \<Rightarrow> string \<Rightarrow> string list" where
  "split_char c [] = [[]]"
| "split_char c (d # ds) =
     (if d = c then [] # split_char c ds
      else (case split_char c ds of [] \<Rightarrow> [[d]] | w # ws \<Rightarrow> (d # w) # ws))"

text \<open>
  The files of one source directory after another: a name that is not a directory
  returns \<^verbatim>\<open>False\<close>; a directory is the list of the texts of its source files.
\<close>

fun compile_files :: "nat \<Rightarrow> string list \<Rightarrow> Function list \<Rightarrow> error + Function list" where
  "compile_files n [] functions = Inr functions"
| "compile_files n (source # sources) functions =
     (case compile_file n source functions of Inl e \<Rightarrow> Inl e
      | Inr functions1 \<Rightarrow> compile_files n sources functions1)"

fun compile_sources ::
    "nat \<Rightarrow> string list option list \<Rightarrow> Function list \<Rightarrow> error + Function list" where
  "compile_sources n [] functions = Inr functions"
| "compile_sources n (None # source_path) functions = Inl Unexpected"
| "compile_sources n (Some sources # source_path) functions =
     (case compile_files n sources functions of Inl e \<Rightarrow> Inl e
      | Inr functions1 \<Rightarrow> compile_sources n source_path functions1)"

text \<open>
  The loop over \<^verbatim>\<open>self.functions\<close> that writes the output; \<open>all_functions\<close> is the whole
  list, in which a \<^verbatim>\<open>CALL\<close> looks its target up.
\<close>

definition write_cubent_function ::
    "(nat \<Rightarrow> string) \<Rightarrow> Function list \<Rightarrow> Function \<Rightarrow> Output \<Rightarrow> nat \<Rightarrow> error + Output \<times> nat"
  where
  "write_cubent_function uuid all_functions function out k =
     (let p = function_path function;
          function_directory = [''data'', join ''.'' (butlast p), ''functions'']
      in case makedirs (directories out) function_directory of
           Inl e \<Rightarrow> Inl (Raised e)
         | Inr dirs \<Rightarrow>
             (case write_commands
                     \<lparr>env_build_uuid = uuid 0, env_path = p,
                       env_parameters = function_parameters function,
                       env_functions = all_functions, env_uuid = uuid\<rparr>
                     (function_commands function) (Scope None []) [] k of
                Inl e \<Rightarrow> Inl e
              | Inr st \<Rightarrow>
                  Inr (\<lparr>directories = dirs,
                         files = files out
                           @ map (\<lambda>(name, ls).
                                ([''data'', uuid 0, ''functions'', name @ ''.mcfunction''], ls))
                               (helpers st)
                           @ [(function_directory @ [last p @ ''.mcfunction''], lines st)]\<rparr>,
                       uuids st)))"

definition write_mcfunction :: "Function \<Rightarrow> Output \<Rightarrow> error + Output" where
  "write_mcfunction function out =
     (let location = function_location function
      in if length (filter (\<lambda>c. c = CHR '':'') location) \<noteq> 1 then Inl (Raised ValueError)
         else
           (let namespace = takeWhile (\<lambda>c. c \<noteq> CHR '':'') location;
                p = split_char (CHR ''/'') (drop 1 (dropWhile (\<lambda>c. c \<noteq> CHR '':'') location))
            in case makedirs (directories out)
                      ([''data'', namespace, ''functions''] @ butlast p) of
                 Inl e \<Rightarrow> Inl (Raised e)
               | Inr dirs \<Rightarrow> Inr (out\<lparr>directories := dirs\<rparr>)))"

fun write_functions ::
    "(nat \<Rightarrow> string) \<Rightarrow> Function list \<Rightarrow> Function list \<Rightarrow> Output \<Rightarrow> nat \<Rightarrow> error + Output"
  where
  "write_functions uuid all_functions [] out k = Inr out"
| "write_functions uuid all_functions (CubentFunction p ps r cs # functions) out k =
     (case write_cubent_function uuid all_functions (CubentFunction p ps r cs) out k of
        Inl e \<Rightarrow> Inl e
      | Inr (out1, k1) \<Rightarrow> write_functions uuid all_functions functions out1 k1)"
| "write_functions uuid all_functions (MCFunction p ps r location # functions) out k =
     (case write_mcfunction (MCFunction p ps r location) out of
        Inl e \<Rightarrow> Inl e
      | Inr out1 \<Rightarrow> write_functions uuid all_functions functions out1 k)"

text \<open>
  \<^verbatim>\<open>compile(source_path, out, mcversion, icon, description)\<close>. The version gate is its
  first statement; \<open>uuid 0\<close> is the build identifier.
\<close>

definition compile ::
    "nat \<Rightarrow> (nat \<Rightarrow> string) \<Rightarrow> string list option list \<Rightarrow> MinecraftVersion \<Rightarrow> error + Output"
  where
  "compile n uuid source_path mcversion =
     (if version_lt mcversion MINIMAL_VERSION then Inl VersionError
      else
        (case compile_sources n source_path [] of Inl e \<Rightarrow> Inl e
         | Inr functions \<Rightarrow>
             (case makedirs [[]] [''data'', uuid 0, ''functions''] of
                Inl e \<Rightarrow> Inl (Raised e)
              | Inr dirs \<Rightarrow>
                  write_functions uuid functions functions
                    \<lparr>directories = dirs, files = []\<rparr> 1)))"

section \<open>Sample programs\<close>

text \<open>
  Source texts on which the compiler is run below, and a stream of identifiers for
  \<^verbatim>\<open>uuid.uuid4().hex\<close>.
\<close>

definition demo_source :: string where
  "demo_source = ''namespace demo { function main(): Void { var x = 1 + 2; } }''"

definition precedence_source :: string where
  "precedence_source = ''namespace n { function f(): Void { var x = 1+2*3==7; } }''"

definition property_source :: string where
  "property_source = ''namespace n { function f(): Void { var a = 1; a.b = 2; } }''"

definition duplicate_source :: string where
  "duplicate_source = ''namespace d { mcfunction 'minecraft:reload' f(): Void; function f(): Void { } }''"


definition arity_source :: string where
  "arity_source = ''import d.run; import d.go; namespace d { mcfunction 'a:b' run(p: Int): Void; mcfunction 'c:e' go(): Void; function h(): Void { go(1, run()); } }''"

definition sample_uuid :: "nat \<Rightarrow> string" where
  "sample_uuid k = ''id'' @ str (int k)"

text \<open>
  An environment of \<^verbatim>\<open>write_commands\<close> for the function \<^verbatim>\<open>d.h\<close>, in which three external
  functions are declared: \<^verbatim>\<open>run\<close> with one parameter, \<^verbatim>\<open>go\<close> with none, and \<^verbatim>\<open>get\<close> with
  none and the return type \<open>Int\<close>.
\<close>

definition call_env :: Env where
  "call_env =
     \<lparr>env_build_uuid = ''id0'', env_path = [''d'', ''h''], env_parameters = [],
       env_functions =
         [MCFunction [''d'', ''run''] [(''p'', Int')] Void ''a:b'',
          MCFunction [''d'', ''go''] [] Void ''c:e'',
          MCFunction [''d'', ''get''] [] Int' ''g:h''],
       env_uuid = sample_uuid\<rparr>"

section \<open>Properties of the lexer\<close>

lemma skip_space_id: "\<not> isspace (peekch lx) \<Longrightarrow> skip_space lx = lx"
  by (subst skip_space.simps) simp

lemma lower_below_letters: "code c < 65 \<Longrightarrow> lower c = c"
proof -
  assume a: "code c < 65"
  then have "c \<notin> set ''ABCDEFGHIJKLMNOPQRSTUVWXYZ''" by (auto simp: code_def)
  then have "map_of (zip ''ABCDEFGHIJKLMNOPQRSTUVWXYZ'' ''abcdefghijklmnopqrstuvwxyz'') c = None"
    by (subst map_of_zip_is_None) simp_all
  with a show ?thesis by (simp add: lower_def Let_def)
qed

lemma ascii_digit_facts:
  "isascii_digit c \<Longrightarrow>
     isdigit c \<and> \<not> isspace c \<and> c \<noteq> CHR 0x00 \<and> c \<noteq> CHR 0x0A \<and> c \<noteq> CHR ''/''
     \<and> c \<noteq> CHR ''='' \<and> c \<noteq> CHR ''.'' \<and> lower c = c"
proof -
  assume a: "isascii_digit c"
  then have "lower c = c" by (intro lower_below_letters) (simp add: isascii_digit_def Let_def)
  with a show ?thesis
    by (auto simp: isascii_digit_def isdigit_def isspace_def code_def Let_def)
qed

lemma dot_facts: "\<not> isdigit CHR ''.'' \<and> CHR ''.'' \<noteq> CHR 0x0A"
  by (simp add: isdigit_def isascii_digit_def code_def)

lemma nul_facts:
  "\<not> isdigit CHR 0x00 \<and> \<not> isspace CHR 0x00 \<and> lower CHR 0x00 = CHR 0x00"
proof -
  have "lower CHR 0x00 = CHR 0x00" by code_simp
  then show ?thesis by (simp add: isdigit_def isascii_digit_def isspace_def code_def)
qed

lemma suffix_facts:
  "sfx = CHR ''b'' \<or> sfx = CHR ''B'' \<Longrightarrow>
     \<not> isdigit sfx \<and> sfx \<noteq> CHR ''.'' \<and> lower sfx = CHR ''b''"
proof -
  have "lower CHR ''B'' = CHR ''b''" "lower CHR ''b'' = CHR ''b''" by code_simp+
  then show "sfx = CHR ''b'' \<or> sfx = CHR ''B'' \<Longrightarrow> ?thesis"
    by (auto simp: isdigit_def isascii_digit_def code_def Let_def)
qed

lemma digits_no_dot: "list_all isascii_digit ds \<Longrightarrow> CHR ''.'' \<notin> set ds"
  using ascii_digit_facts by (auto simp: list_all_iff)

lemma digit_val_range: "isascii_digit c \<Longrightarrow> 0 \<le> digit_val c \<and> digit_val c \<le> 9"
  by (auto simp: isascii_digit_def digit_val_def Let_def)

lemma foldl_digits_nonneg:
  "0 \<le> a \<Longrightarrow> list_all isascii_digit ds \<Longrightarrow>
     0 \<le> foldl (\<lambda>a c. 10 * a + digit_val c) a ds"
proof (induction ds arbitrary: a)
  case Nil
  then show ?case by simp
next
  case (Cons d ds)
  then have "0 \<le> 10 * a + digit_val d" using digit_val_range [of d] by simp
  with Cons show ?case by simp
qed

lemma digits_val_nonneg: "list_all isascii_digit ds \<Longrightarrow> 0 \<le> digits_val ds"
  by (simp add: digits_val_def foldl_digits_nonneg)

lemma digits_val_snoc: "digits_val (xs @ [c]) = 10 * digits_val xs + digit_val c"
  by (simp add: digits_val_def)

text \<open>The digit loop reads a run of ASCII digits to its end and stays on the line.\<close>

lemma read_digits_run:
  "list_all isascii_digit ds \<Longrightarrow> post = [] \<or> \<not> isdigit (hd post) \<Longrightarrow>
   input lx = pre @ ds @ post \<Longrightarrow> offset lx = length pre \<Longrightarrow>
   read_digits lx b =
     (lx\<lparr>offset := offset lx + length ds, column := column lx + length ds\<rparr>, b @ ds)"
proof (induction ds arbitrary: lx pre b)
  case Nil
  have "\<not> isdigit (peekch lx)"
  proof (cases post)
    case Nil
    with Nil.prems show ?thesis
      by (simp add: peekch_def isdigit_def isascii_digit_def code_def)
  next
    case (Cons p ps)
    with Nil.prems show ?thesis by (simp add: peekch_def)
  qed
  then show ?case by (subst read_digits.simps) simp
next
  case (Cons d ds)
  from Cons.prems have pk: "peekch lx = d" by (simp add: peekch_def)
  from Cons.prems have dg: "isascii_digit d" by simp
  have cons: "consume lx = lx\<lparr>offset := offset lx + 1, column := column lx + 1\<rparr>"
    using pk dg ascii_digit_facts [of d] by (simp add: consume_def)
  have "read_digits (consume lx) (b @ [d]) =
     ((consume lx)\<lparr>offset := offset (consume lx) + length ds,
        column := column (consume lx) + length ds\<rparr>, (b @ [d]) @ ds)"
    using Cons.prems by (intro Cons.IH [where pre = "pre @ [d]"]) simp_all
  then show ?case
    using pk dg ascii_digit_facts [of d] cons by (subst read_digits.simps) simp
qed

lemma lexer_next_number:
  assumes "input lx = c # cs" "offset lx = 0" "isascii_digit c \<or> c = CHR ''.''"
  shows "lexer_next lx =
     (case read_number lx of Inl e \<Rightarrow> Inl e | Inr (l, lx1) \<Rightarrow> Inr (Some l, lx1))"
proof -
  have pk: "peekch lx = c" using assms by (simp add: peekch_def)
  have f: "\<not> isspace c \<and> c \<noteq> CHR 0x00 \<and> c \<noteq> CHR ''/'' \<and> c \<noteq> CHR ''=''
      \<and> (isdigit c \<or> c = CHR ''.'')"
    using assms(3) ascii_digit_facts [of c] by (auto simp: isspace_def code_def)
  then have "skip_space lx = lx" using pk by (simp add: skip_space_id)
  then show ?thesis using pk f by (subst lexer_next.simps) (simp add: Let_def)
qed

lemma lexer_next_end:
  "offset lx = length (input lx) \<Longrightarrow>
   lexer_next lx = Inr (Some (Lexeme (Some EOF) (lexer_position lx) None), lx)"
proof -
  assume "offset lx = length (input lx)"
  then have pk: "peekch lx = CHR 0x00" by (simp add: peekch_def)
  then have "skip_space lx = lx" using nul_facts by (simp add: skip_space_id)
  then show ?thesis using pk by (subst lexer_next.simps) (simp add: Let_def)
qed

lemma read_number_byte:
  assumes ds: "ds \<noteq> []" "list_all isascii_digit ds"
    and sfx: "sfx = CHR ''b'' \<or> sfx = CHR ''B''"
  shows "read_number (Lexer_init (ds @ sfx # rest)) =
     (if 4300 < length ds then Inl ValueError
      else if - 128 \<le> digits_val ds \<and> digits_val ds \<le> 127
      then Inr (Lexeme (Some BYTE) (Position 0 0 0) (Some (ds @ ''b'')),
             \<lparr>offset = length ds + 1, line = 0, column = length ds + 1,
               input = ds @ sfx # rest\<rparr>)
      else Inr (Lexeme None (Position 0 0 0) (Some ds),
             \<lparr>offset = length ds, line = 0, column = length ds, input = ds @ sfx # rest\<rparr>))"
proof -
  let ?lx = "Lexer_init (ds @ sfx # rest)"
  let ?lx1 = "\<lparr>offset = length ds, line = 0, column = length ds, input = ds @ sfx # rest\<rparr>"
  have rd: "read_digits ?lx [] = (?lx1, ds)"
    using read_digits_run [of ds "sfx # rest" ?lx "[]" "[]"] ds suffix_facts [OF sfx]
    by (simp add: Lexer_init_def)
  have pk: "peekch ?lx1 = sfx" by (simp add: peekch_def nth_append)
  have nonneg: "0 \<le> digits_val ds" using ds by (simp add: digits_val_nonneg)
  have cons: "consume ?lx1 = \<lparr>offset = length ds + 1, line = 0, column = length ds + 1,
               input = ds @ sfx # rest\<rparr>"
    using pk sfx by (auto simp: consume_def)
  show ?thesis
    using rd pk suffix_facts [OF sfx] digits_no_dot [OF ds(2)] ds cons nonneg
    by (simp add: read_number_def Let_def lexer_position_def Lexer_init_def py_int_def)
qed

lemma read_number_byte_frac:
  assumes ds: "list_all isascii_digit ds" and fs: "list_all isascii_digit fs"
    and sfx: "sfx = CHR ''b'' \<or> sfx = CHR ''B''"
  shows "read_number (Lexer_init (ds @ CHR ''.'' # fs @ sfx # rest)) =
     Inr (Lexeme None (Position 0 0 0) (Some (ds @ CHR ''.'' # fs)),
       \<lparr>offset = length ds + 1 + length fs, line = 0, column = length ds + 1 + length fs,
         input = ds @ CHR ''.'' # fs @ sfx # rest\<rparr>)"
proof -
  let ?t = "ds @ CHR ''.'' # fs @ sfx # rest"
  let ?lx1 = "\<lparr>offset = length ds, line = 0, column = length ds, input = ?t\<rparr>"
  let ?lx2 = "\<lparr>offset = length ds + 1, line = 0, column = length ds + 1, input = ?t\<rparr>"
  let ?lx3 = "\<lparr>offset = length ds + 1 + length fs, line = 0,
     column = length ds + 1 + length fs, input = ?t\<rparr>"
  have rd1: "read_digits (Lexer_init ?t) [] = (?lx1, ds)"
    using read_digits_run [of ds "CHR ''.'' # fs @ sfx # rest" "Lexer_init ?t" "[]" "[]"]
      ds dot_facts
    by (simp add: Lexer_init_def)
  have pk1: "peekch ?lx1 = CHR ''.''" by (simp add: peekch_def nth_append)
  have cons: "consume ?lx1 = ?lx2" using pk1 by (simp add: consume_def)
  have rd2: "read_digits ?lx2 (ds @ [CHR ''.'']) = (?lx3, ds @ CHR ''.'' # fs)"
    using read_digits_run [of fs "sfx # rest" ?lx2 "ds @ [CHR ''.'']" "ds @ [CHR ''.'']"]
      fs suffix_facts [OF sfx]
    by simp
  have pk3: "peekch ?lx3 = sfx" by (simp add: peekch_def nth_append)
  show ?thesis
    using rd1 pk1 cons rd2 pk3 suffix_facts [OF sfx]
    by (simp add: read_number_def Let_def lexer_position_def Lexer_init_def)
qed

lemma read_number_int:
  assumes ds: "ds \<noteq> []" "list_all isascii_digit ds" "length ds \<le> 4300"
  shows "read_number (Lexer_init ds) =
     (if digits_val ds \<le> 2147483647
      then Inr (Lexeme (Some INT') (Position 0 0 0) (Some ds),
             \<lparr>offset = length ds, line = 0, column = length ds, input = ds\<rparr>)
      else Inr (Lexeme None (Position 0 0 0) (Some ds),
             \<lparr>offset = length ds, line = 0, column = length ds, input = ds\<rparr>))"
proof -
  let ?lx1 = "\<lparr>offset = length ds, line = 0, column = length ds, input = ds\<rparr>"
  have rd: "read_digits (Lexer_init ds) [] = (?lx1, ds)"
    using read_digits_run [of ds "[]" "Lexer_init ds" "[]" "[]"] ds
    by (simp add: Lexer_init_def)
  have pk: "peekch ?lx1 = CHR 0x00" by (simp add: peekch_def)
  show ?thesis
    using rd pk nul_facts digits_no_dot [OF ds(2)] ds
    by (simp add: read_number_def Let_def lexer_position_def Lexer_init_def py_int_def)
qed

lemma digit_char_digit:
  "k < 10 \<Longrightarrow> isascii_digit (digit_char k) \<and> digit_val (digit_char k) = int k"
proof -
  assume "k < 10"
  then have "k \<in> {0, 1, 2, 3, 4, 5, 6, 7, 8, 9}" by auto
  then show ?thesis
    by (auto simp: digit_char_def isascii_digit_def digit_val_def code_def)
qed

lemma str_nat_digits: "list_all isascii_digit (str_nat n) \<and> str_nat n \<noteq> []"
proof (induction n rule: str_nat.induct)
  case (1 n)
  show ?case
  proof (cases "n < 10")
    case True
    then show ?thesis using digit_char_digit [of n] by (subst (1 2) str_nat.simps) simp
  next
    case False
    with 1 show ?thesis
      using digit_char_digit [of "n mod 10"] by (subst (1 2) str_nat.simps) simp
  qed
qed

lemma digits_val_str_nat: "digits_val (str_nat n) = int n"
proof (induction n rule: str_nat.induct)
  case (1 n)
  show ?case
  proof (cases "n < 10")
    case True
    then show ?thesis
      using digit_char_digit [of n] by (subst str_nat.simps) (simp add: digits_val_def)
  next
    case False
    with 1 have "digits_val (str_nat (n div 10)) = int (n div 10)" by simp
    with False show ?thesis
      using digit_char_digit [of "n mod 10"]
      by (subst str_nat.simps) (simp add: digits_val_snoc zdiv_int zmod_int)
  qed
qed

lemma str_nat_length: "n < 10 ^ k \<Longrightarrow> 0 < k \<Longrightarrow> length (str_nat n) \<le> k"
proof (induction n arbitrary: k rule: str_nat.induct)
  case (1 n)
  show ?case
  proof (cases "n < 10")
    case True
    with 1(3) show ?thesis by (subst str_nat.simps) simp
  next
    case False
    obtain j where j: "k = Suc j" using 1(3) by (cases k) auto
    have "j \<noteq> 0" using False 1(2) j by (cases j) auto
    moreover have "n div 10 < 10 ^ j" using 1(2) j by (simp add: less_mult_imp_div_less mult.commute)
    ultimately have "length (str_nat (n div 10)) \<le> j" using 1(1) [OF False, of j] by simp
    with False j show ?thesis by (subst str_nat.simps) simp
  qed
qed

lemma digits_val_zeros: "digits_val (replicate n (CHR ''0'') @ xs) = digits_val xs"
proof -
  have "foldl (\<lambda>a c. 10 * a + digit_val c) 0 (replicate n (CHR ''0'')) = 0"
    by (induction n) (simp_all add: digit_val_def code_def)
  then show ?thesis by (simp add: digits_val_def)
qed

text \<open>
  C6. \<^verbatim>\<open>Lexer.next\<close> is claimed to return a lexeme for every text, and the punctuation
  lexeme \<^verbatim>\<open>/\<close> where a \<^verbatim>\<open>/\<close> starts no comment. On the text \<^verbatim>\<open>/2\<close> the source consumes
  the \<^verbatim>\<open>/\<close> and returns \<^verbatim>\<open>None\<close>: no lexeme is produced, and the same on \<^verbatim>\<open>8 / 2\<close> after
  the first lexeme.
\<close>

theorem next_lone_slash_returns_None:
  "lexer_next (Lexer_init ''/2'') =
     Inr (None, \<lparr>offset = 1, line = 0, column = 1, input = ''/2''\<rparr>)
   \<and> lexer_next \<lparr>offset = 1, line = 0, column = 1, input = ''8 / 2''\<rparr> =
     Inr (None, \<lparr>offset = 3, line = 0, column = 3, input = ''8 / 2''\<rparr>)"
  by code_simp

text \<open>
  C7, as stated: for every \<open>N\<close> from \<open>-2147483648\<close> to \<open>2147483647\<close> the text \<^verbatim>\<open>str(N)\<close>
  lexes to one \<^verbatim>\<open>Int\<close> lexeme with that body. It fails at \<open>N = -1\<close>: the first lexeme
  of \<^verbatim>\<open>-1\<close> is the punctuation \<^verbatim>\<open>-\<close>, since the lexer knows no sign.
\<close>

theorem int_literal_negative_counterexample:
  "str (- 1) = ''-1''
   \<and> lexer_next (Lexer_init (str (- 1))) =
     Inr (Some (Lexeme None (Position 0 0 0) (Some ''-'')),
       \<lparr>offset = 1, line = 0, column = 1, input = ''-1''\<rparr>)"
  by (simp add: str_def str_nat.simps digit_char_def) code_simp

text \<open>
  C7, amended: for every \<open>N\<close> from \<open>0\<close> to \<open>2147483647\<close> the text \<^verbatim>\<open>str(N)\<close> lexes to
  one lexeme of kind \<^verbatim>\<open>Int\<close> at offset 0 whose body is \<^verbatim>\<open>str(N)\<close>, and the next lexeme
  is \<^verbatim>\<open>EOF\<close>.
\<close>

theorem int_literal_nonnegative:
  assumes "0 \<le> N" and "N \<le> 2147483647"
  shows "lexer_next (Lexer_init (str N)) =
       Inr (Some (Lexeme (Some INT') (Position 0 0 0) (Some (str N))),
         \<lparr>offset = length (str N), line = 0, column = length (str N), input = str N\<rparr>)
     \<and> lexer_next \<lparr>offset = length (str N), line = 0, column = length (str N),
         input = str N\<rparr> =
       Inr (Some (Lexeme (Some EOF) (Position (length (str N)) 0 (length (str N))) None),
         \<lparr>offset = length (str N), line = 0, column = length (str N), input = str N\<rparr>)"
proof
  let ?ds = "str_nat (nat N)"
  have s: "str N = ?ds" using assms by (simp add: str_def)
  have "nat N < 10 ^ 10" using assms by simp
  then have "length ?ds \<le> 10" by (intro str_nat_length) simp_all
  then have dg: "?ds \<noteq> []" "list_all isascii_digit ?ds" "length ?ds \<le> 4300"
    using str_nat_digits by auto
  have v: "digits_val ?ds = N" using assms by (simp add: digits_val_str_nat)
  obtain d ds' where d: "?ds = d # ds'" using dg(1) by (cases ?ds) auto
  with dg(2) have "isascii_digit d" by simp
  then have "lexer_next (Lexer_init ?ds) =
     (case read_number (Lexer_init ?ds) of Inl e \<Rightarrow> Inl e
      | Inr (l, lx1) \<Rightarrow> Inr (Some l, lx1))"
    using d by (intro lexer_next_number [where c = d]) (simp_all add: Lexer_init_def)
  then show "lexer_next (Lexer_init (str N)) =
       Inr (Some (Lexeme (Some INT') (Position 0 0 0) (Some (str N))),
         \<lparr>offset = length (str N), line = 0, column = length (str N), input = str N\<rparr>)"
    using read_number_int [OF dg] v assms s by simp
next
  show "lexer_next \<lparr>offset = length (str N), line = 0, column = length (str N),
         input = str N\<rparr> =
       Inr (Some (Lexeme (Some EOF) (Position (length (str N)) 0 (length (str N))) None),
         \<lparr>offset = length (str N), line = 0, column = length (str N), input = str N\<rparr>)"
    using lexer_next_end [of "\<lparr>offset = length (str N), line = 0,
      column = length (str N), input = str N\<rparr>"]
    by (simp add: lexer_position_def)
qed

theorem int_literal_nonnegative_witness:
  "(0::int) \<le> 2147483647 \<and> (2147483647::int) \<le> 2147483647
   \<and> str 2147483647 = ''2147483647''
   \<and> lexer_next (Lexer_init ''2147483647'') =
       Inr (Some (Lexeme (Some INT') (Position 0 0 0) (Some ''2147483647'')),
         \<lparr>offset = 10, line = 0, column = 10, input = ''2147483647''\<rparr>)
   \<and> lexer_next \<lparr>offset = 10, line = 0, column = 10, input = ''2147483647''\<rparr> =
       Inr (Some (Lexeme (Some EOF) (Position 10 0 10) None),
         \<lparr>offset = 10, line = 0, column = 10, input = ''2147483647''\<rparr>)"
proof -
  have s: "str 2147483647 = ''2147483647''"
    by (simp add: str_def str_nat.simps digit_char_def)
  have l: "length ''2147483647'' = 10" by simp
  show ?thesis using int_literal_nonnegative [of 2147483647] unfolding s l by simp
qed

text \<open>
  C9, as stated: a run of decimal digits followed by \<^verbatim>\<open>b\<close> or \<^verbatim>\<open>B\<close> lexes to a \<^verbatim>\<open>Byte\<close>
  lexeme exactly when it has no fractional part and its value lies in \<open>[-128, 127]\<close>, and
  to an invalid lexeme otherwise. It fails on a run of more than 4300 digits: the text of
  4300 zeros, \<^verbatim>\<open>1\<close> and \<^verbatim>\<open>b\<close> has no fractional part and the value 1, and
  \<^verbatim>\<open>int(body)\<close> raises \<^verbatim>\<open>ValueError\<close>, so that \<^verbatim>\<open>next\<close> returns no lexeme at all.
\<close>

theorem byte_literal_long_run_counterexample:
  "list_all isascii_digit (replicate 4300 (CHR ''0'') @ ''1'')
   \<and> digits_val (replicate 4300 (CHR ''0'') @ ''1'') = 1
   \<and> lexer_next (Lexer_init (replicate 4300 (CHR ''0'') @ ''1b'')) = Inl ValueError"
proof (intro conjI)
  let ?ds = "replicate 4300 (CHR ''0'') @ ''1''"
  show dg: "list_all isascii_digit ?ds"
    by (simp add: list_all_iff isascii_digit_def code_def)
  show "digits_val ?ds = 1"
    by (simp only: digits_val_zeros) (simp add: digits_val_def digit_val_def code_def)
  have ne: "?ds \<noteq> []" by simp
  have len: "4300 < length ?ds" by simp
  have hd: "isascii_digit (CHR ''0'') \<or> CHR ''0'' = CHR ''.''"
    by (simp add: isascii_digit_def code_def)
  have "replicate 4300 (CHR ''0'') = CHR ''0'' # replicate 4299 (CHR ''0'')"
    by (simp add: replicate_Suc [symmetric] del: replicate_Suc)
  then have split: "?ds @ ''b'' = CHR ''0'' # (replicate 4299 (CHR ''0'') @ ''1b'')"
    by simp
  have t: "replicate 4300 (CHR ''0'') @ ''1b'' = ?ds @ ''b''" by simp
  have "lexer_next (Lexer_init (?ds @ ''b'')) =
     (case read_number (Lexer_init (?ds @ ''b'')) of Inl e \<Rightarrow> Inl e
      | Inr (l, lx1) \<Rightarrow> Inr (Some l, lx1))"
    using hd split
    by (intro lexer_next_number [where c = "CHR ''0''"]) (simp_all add: Lexer_init_def)
  moreover have "read_number (Lexer_init (?ds @ ''b'')) = Inl ValueError"
    using read_number_byte [OF ne dg, of "CHR ''b''" "[]"] len by simp
  ultimately show "lexer_next (Lexer_init (replicate 4300 (CHR ''0'') @ ''1b'')) =
      Inl ValueError"
    unfolding t by simp
qed

text \<open>
  C9, amended: a run \<open>ds\<close> of at least one and at most 4300 decimal digits followed by
  \<^verbatim>\<open>b\<close> or \<^verbatim>\<open>B\<close> lexes to a \<^verbatim>\<open>Byte\<close> lexeme, its body the digits and a lower-case \<^verbatim>\<open>b\<close>,
  exactly when its value lies in \<open>[-128, 127]\<close>, and to an invalid lexeme beyond that
  range (it has no kind and the suffix is left unread); a run \<open>ls\<close> of more than 4300
  digits followed by the suffix raises \<^verbatim>\<open>ValueError\<close>; a literal with a fractional
  part, of digit runs \<open>ip\<close> and \<open>fs\<close> of any length, is an invalid lexeme. \<^verbatim>\<open>127b\<close> is a
  \<^verbatim>\<open>Byte\<close> and \<^verbatim>\<open>128b\<close> is invalid.
\<close>

theorem byte_literal_range:
  assumes "ds \<noteq> []" and "length ds \<le> 4300" and "list_all isascii_digit ds"
    and "4300 < length ls" and "list_all isascii_digit ls"
    and "list_all isascii_digit ip" and "list_all isascii_digit fs"
    and "sfx = CHR ''b'' \<or> sfx = CHR ''B''"
  shows "lexer_next (Lexer_init (ds @ sfx # rest)) =
       (if - 128 \<le> digits_val ds \<and> digits_val ds \<le> 127
        then Inr (Some (Lexeme (Some BYTE) (Position 0 0 0) (Some (ds @ ''b''))),
               \<lparr>offset = length ds + 1, line = 0, column = length ds + 1,
                 input = ds @ sfx # rest\<rparr>)
        else Inr (Some (Lexeme None (Position 0 0 0) (Some ds)),
               \<lparr>offset = length ds, line = 0, column = length ds,
                 input = ds @ sfx # rest\<rparr>))
     \<and> lexer_next (Lexer_init (ls @ sfx # rest)) = Inl ValueError
     \<and> lexer_next (Lexer_init (ip @ CHR ''.'' # fs @ sfx # rest)) =
         Inr (Some (Lexeme None (Position 0 0 0) (Some (ip @ CHR ''.'' # fs))),
           \<lparr>offset = length ip + 1 + length fs, line = 0,
             column = length ip + 1 + length fs,
             input = ip @ CHR ''.'' # fs @ sfx # rest\<rparr>)
     \<and> lexer_next (Lexer_init ''127b'') =
         Inr (Some (Lexeme (Some BYTE) (Position 0 0 0) (Some ''127b'')),
           \<lparr>offset = 4, line = 0, column = 4, input = ''127b''\<rparr>)
     \<and> lexer_next (Lexer_init ''128b'') =
         Inr (Some (Lexeme None (Position 0 0 0) (Some ''128'')),
           \<lparr>offset = 3, line = 0, column = 3, input = ''128b''\<rparr>)"
proof (intro conjI)
  obtain d ds' where d: "ds = d # ds'" using assms(1) by (cases ds) auto
  with assms(3) have dd: "isascii_digit d" by simp
  have "lexer_next (Lexer_init (ds @ sfx # rest)) =
     (case read_number (Lexer_init (ds @ sfx # rest)) of Inl e \<Rightarrow> Inl e
      | Inr (l, lx1) \<Rightarrow> Inr (Some l, lx1))"
    using d dd by (intro lexer_next_number [where c = d]) (simp_all add: Lexer_init_def)
  then show "lexer_next (Lexer_init (ds @ sfx # rest)) =
       (if - 128 \<le> digits_val ds \<and> digits_val ds \<le> 127
        then Inr (Some (Lexeme (Some BYTE) (Position 0 0 0) (Some (ds @ ''b''))),
               \<lparr>offset = length ds + 1, line = 0, column = length ds + 1,
                 input = ds @ sfx # rest\<rparr>)
        else Inr (Some (Lexeme None (Position 0 0 0) (Some ds)),
               \<lparr>offset = length ds, line = 0, column = length ds,
                 input = ds @ sfx # rest\<rparr>))"
    using read_number_byte [OF assms(1,3,8), of rest] assms(2) by simp
next
  have ne: "ls \<noteq> []" using assms(4) by auto
  then obtain d ls' where d: "ls = d # ls'" by (cases ls) auto
  with assms(5) have dd: "isascii_digit d" by simp
  have "lexer_next (Lexer_init (ls @ sfx # rest)) =
     (case read_number (Lexer_init (ls @ sfx # rest)) of Inl e \<Rightarrow> Inl e
      | Inr (l, lx1) \<Rightarrow> Inr (Some l, lx1))"
    using d dd by (intro lexer_next_number [where c = d]) (simp_all add: Lexer_init_def)
  then show "lexer_next (Lexer_init (ls @ sfx # rest)) = Inl ValueError"
    using read_number_byte [OF ne assms(5,8), of rest] assms(4) by simp
next
  have "\<exists>c cs. ip @ CHR ''.'' # fs @ sfx # rest = c # cs
      \<and> (isascii_digit c \<or> c = CHR ''.'')"
    using assms(6) by (cases ip) auto
  then obtain c cs where c: "ip @ CHR ''.'' # fs @ sfx # rest = c # cs"
      "isascii_digit c \<or> c = CHR ''.''"
    by blast
  have "lexer_next (Lexer_init (ip @ CHR ''.'' # fs @ sfx # rest)) =
     (case read_number (Lexer_init (ip @ CHR ''.'' # fs @ sfx # rest)) of Inl e \<Rightarrow> Inl e
      | Inr (l, lx1) \<Rightarrow> Inr (Some l, lx1))"
    using c by (intro lexer_next_number [where c = c and cs = cs]) (simp_all add: Lexer_init_def)
  then show "lexer_next (Lexer_init (ip @ CHR ''.'' # fs @ sfx # rest)) =
         Inr (Some (Lexeme None (Position 0 0 0) (Some (ip @ CHR ''.'' # fs))),
           \<lparr>offset = length ip + 1 + length fs, line = 0,
             column = length ip + 1 + length fs,
             input = ip @ CHR ''.'' # fs @ sfx # rest\<rparr>)"
    using read_number_byte_frac [OF assms(6,7,8), of rest] by simp
next
  show "lexer_next (Lexer_init ''127b'') =
         Inr (Some (Lexeme (Some BYTE) (Position 0 0 0) (Some ''127b'')),
           \<lparr>offset = 4, line = 0, column = 4, input = ''127b''\<rparr>)"
    by code_simp
next
  show "lexer_next (Lexer_init ''128b'') =
         Inr (Some (Lexeme None (Position 0 0 0) (Some ''128'')),
           \<lparr>offset = 3, line = 0, column = 3, input = ''128b''\<rparr>)"
    by code_simp
qed

theorem byte_literal_range_witness:
  "''99'' \<noteq> [] \<and> length ''99'' \<le> 4300 \<and> list_all isascii_digit ''99''
   \<and> 4300 < length (replicate 4301 (CHR ''7''))
   \<and> list_all isascii_digit (replicate 4301 (CHR ''7''))
   \<and> list_all isascii_digit [] \<and> list_all isascii_digit ''5''
   \<and> lexer_next (Lexer_init ''99B;'') =
     Inr (Some (Lexeme (Some BYTE) (Position 0 0 0) (Some ''99b'')),
       \<lparr>offset = 3, line = 0, column = 3, input = ''99B;''\<rparr>)
   \<and> lexer_next (Lexer_init (replicate 4301 (CHR ''7'') @ ''B;'')) = Inl ValueError
   \<and> lexer_next (Lexer_init ''.5B;'') =
     Inr (Some (Lexeme None (Position 0 0 0) (Some ''.5'')),
       \<lparr>offset = 2, line = 0, column = 2, input = ''.5B;''\<rparr>)"
proof -
  have a: "''99'' \<noteq> []" "length ''99'' \<le> 4300" "list_all isascii_digit ''99''"
    "4300 < length (replicate 4301 (CHR ''7''))"
    "list_all isascii_digit (replicate 4301 (CHR ''7''))"
    "list_all isascii_digit []" "list_all isascii_digit ''5''"
    "CHR ''B'' = CHR ''b'' \<or> CHR ''B'' = CHR ''B''"
    by (simp_all add: list_all_iff isascii_digit_def code_def)
  have v: "digits_val ''99'' = 99" by (simp add: digits_val_def digit_val_def code_def)
  show ?thesis
    using byte_literal_range [OF a, of "'';''"] v a by simp
qed

section \<open>Running the parser\<close>

text \<open>
  The recursion equations in the form that evaluates a term whose fuel is a numeral:
  a parser is unfolded only where it is applied to a lexer.
\<close>

lemma fuel_unfold:
  "compile_statement n lx i p c =
     (case n of 0 \<Rightarrow> Inl OutOfFuel
      | Suc m \<Rightarrow> compile_statement_body (compile_function_call m) (compile_expression m)
          (compile_statements m) m lx i p c)"
  "compile_statements n lx i p c =
     (case n of 0 \<Rightarrow> Inl OutOfFuel
      | Suc m \<Rightarrow> compile_statements_body (compile_statement m) (compile_statements m) lx i p c)"
  "compile_function_call n lx i p c =
     (case n of 0 \<Rightarrow> Inl OutOfFuel
      | Suc m \<Rightarrow> compile_function_call_body (compile_arguments m) lx i p c)"
  "compile_arguments n lx i p c a =
     (case n of 0 \<Rightarrow> Inl OutOfFuel
      | Suc m \<Rightarrow> compile_arguments_body (compile_expression m) (compile_arguments m) lx i p c a)"
  "compile_expression n lx i p c =
     (case n of 0 \<Rightarrow> Inl OutOfFuel
      | Suc m \<Rightarrow> compile_expression_body (compile_primary m) (compile_operation m) lx i p c)"
  "compile_operation n lx i p c a =
     (case n of 0 \<Rightarrow> Inl OutOfFuel
      | Suc m \<Rightarrow> compile_operation_body (compile_primary m) (compile_operation m) lx i p c a)"
  "compile_primary n lx i p c =
     (case n of 0 \<Rightarrow> Inl OutOfFuel
      | Suc m \<Rightarrow> compile_primary_body (compile_function_call m) lx i p c)"
  "assignment_path n lx ls =
     (case n of 0 \<Rightarrow> Inl OutOfFuel
      | Suc m \<Rightarrow> assignment_path_body (assignment_path m) lx ls)"
  "parse_parameters n lx p =
     (case n of 0 \<Rightarrow> Inl OutOfFuel
      | Suc m \<Rightarrow> parse_parameters_body (parse_parameters m) lx p)"
  "compile_structures n k ns i lx fs =
     (case n of 0 \<Rightarrow> Inl OutOfFuel
      | Suc m \<Rightarrow> compile_structures_body k ns i (compile_structures m k ns i) lx fs)"
  "namespace_dots n l lx ns =
     (case n of 0 \<Rightarrow> Inl OutOfFuel
      | Suc m \<Rightarrow> namespace_dots_body l (namespace_dots m l) lx ns)"
  "compile_blocks n k i lx fs =
     (case n of 0 \<Rightarrow> Inl OutOfFuel
      | Suc m \<Rightarrow> compile_blocks_body k i (compile_blocks m k i) lx fs)"
  "import_path n s lx l ps =
     (case n of 0 \<Rightarrow> Inl OutOfFuel
      | Suc m \<Rightarrow> import_path_body s (import_path m s) lx l ps)"
  "parse_imports n k lx i =
     (case n of 0 \<Rightarrow> Inl OutOfFuel
      | Suc m \<Rightarrow> parse_imports_body k (parse_imports m k) lx i)"
  by (cases n; simp)+

lemmas parser_defs =
  compile_statement_body_def compile_statements_body_def compile_function_call_body_def
  compile_arguments_body_def compile_expression_body_def compile_operation_body_def
  compile_primary_body_def statement_call_def statement_assignment_def statement_var_def
  statement_if_def primary_operation_def literal_operation_def assignment_path_body_def
  assignment_commands_def parse_parameters_body_def parse_return_type_def
  compile_function_def compile_mcfunction_def compile_structure_def
  compile_structures_body_def namespace_dots_body_def compile_namespace_def
  compile_block_def compile_blocks_body_def import_path_body_def parse_imports_body_def
  compile_file_def next_lexeme_def peek_lexeme_def skip_lexeme_def lookahead_def
  lexeme_text_def body_in_def operators_def operations_def operators_from_def rstrip_def
  getattr_CubentType_def py_int_def digits_val_def digit_val_def isascii_digit_def code_def
  Lexer_init_def


text \<open>
  The lexemes of the sample programs: the result of \<^verbatim>\<open>Lexer.next\<close> in every state the
  parser reaches.
\<close>

lemma demo_source_lexemes:
  "lexer_next \<lparr>offset = 0, line = 0, column = 0, input = demo_source\<rparr> =
     Inr (Some (Lexeme (Some KEYWORD) (Position 0 0 0) (Some ''namespace'')),
       \<lparr>offset = 9, line = 0, column = 9, input = demo_source\<rparr>)"
  "lexer_next \<lparr>offset = 9, line = 0, column = 9, input = demo_source\<rparr> =
     Inr (Some (Lexeme (Some IDENTIFIER) (Position 10 0 10) (Some ''demo'')),
       \<lparr>offset = 14, line = 0, column = 14, input = demo_source\<rparr>)"
  "lexer_next \<lparr>offset = 14, line = 0, column = 14, input = demo_source\<rparr> =
     Inr (Some (Lexeme None (Position 15 0 15) (Some ''{'')),
       \<lparr>offset = 16, line = 0, column = 16, input = demo_source\<rparr>)"
  "lexer_next \<lparr>offset = 16, line = 0, column = 16, input = demo_source\<rparr> =
     Inr (Some (Lexeme (Some KEYWORD) (Position 17 0 17) (Some ''function'')),
       \<lparr>offset = 25, line = 0, column = 25, input = demo_source\<rparr>)"
  "lexer_next \<lparr>offset = 25, line = 0, column = 25, input = demo_source\<rparr> =
     Inr (Some (Lexeme (Some IDENTIFIER) (Position 26 0 26) (Some ''main'')),
       \<lparr>offset = 30, line = 0, column = 30, input = demo_source\<rparr>)"
  "lexer_next \<lparr>offset = 30, line = 0, column = 30, input = demo_source\<rparr> =
     Inr (Some (Lexeme None (Position 30 0 30) (Some ''('')),
       \<lparr>offset = 31, line = 0, column = 31, input = demo_source\<rparr>)"
  "lexer_next \<lparr>offset = 31, line = 0, column = 31, input = demo_source\<rparr> =
     Inr (Some (Lexeme None (Position 31 0 31) (Some '')'')),
       \<lparr>offset = 32, line = 0, column = 32, input = demo_source\<rparr>)"
  "lexer_next \<lparr>offset = 32, line = 0, column = 32, input = demo_source\<rparr> =
     Inr (Some (Lexeme None (Position 32 0 32) (Some '':'')),
       \<lparr>offset = 33, line = 0, column = 33, input = demo_source\<rparr>)"
  "lexer_next \<lparr>offset = 33, line = 0, column = 33, input = demo_source\<rparr> =
     Inr (Some (Lexeme (Some TYPE') (Position 34 0 34) (Some ''Void'')),
       \<lparr>offset = 38, line = 0, column = 38, input = demo_source\<rparr>)"
  "lexer_next \<lparr>offset = 38, line = 0, column = 38, input = demo_source\<rparr> =
     Inr (Some (Lexeme None (Position 39 0 39) (Some ''{'')),
       \<lparr>offset = 40, line = 0, column = 40, input = demo_source\<rparr>)"
  "lexer_next \<lparr>offset = 40, line = 0, column = 40, input = demo_source\<rparr> =
     Inr (Some (Lexeme (Some KEYWORD) (Position 41 0 41) (Some ''var'')),
       \<lparr>offset = 44, line = 0, column = 44, input = demo_source\<rparr>)"
  "lexer_next \<lparr>offset = 44, line = 0, column = 44, input = demo_source\<rparr> =
     Inr (Some (Lexeme (Some IDENTIFIER) (Position 45 0 45) (Some ''x'')),
       \<lparr>offset = 46, line = 0, column = 46, input = demo_source\<rparr>)"
  "lexer_next \<lparr>offset = 46, line = 0, column = 46, input = demo_source\<rparr> =
     Inr (Some (Lexeme None (Position 47 0 47) (Some ''='')),
       \<lparr>offset = 48, line = 0, column = 48, input = demo_source\<rparr>)"
  "lexer_next \<lparr>offset = 48, line = 0, column = 48, input = demo_source\<rparr> =
     Inr (Some (Lexeme (Some INT') (Position 49 0 49) (Some ''1'')),
       \<lparr>offset = 50, line = 0, column = 50, input = demo_source\<rparr>)"
  "lexer_next \<lparr>offset = 50, line = 0, column = 50, input = demo_source\<rparr> =
     Inr (Some (Lexeme None (Position 51 0 51) (Some ''+'')),
       \<lparr>offset = 52, line = 0, column = 52, input = demo_source\<rparr>)"
  "lexer_next \<lparr>offset = 52, line = 0, column = 52, input = demo_source\<rparr> =
     Inr (Some (Lexeme (Some INT') (Position 53 0 53) (Some ''2'')),
       \<lparr>offset = 54, line = 0, column = 54, input = demo_source\<rparr>)"
  "lexer_next \<lparr>offset = 54, line = 0, column = 54, input = demo_source\<rparr> =
     Inr (Some (Lexeme None (Position 54 0 54) (Some '';'')),
       \<lparr>offset = 55, line = 0, column = 55, input = demo_source\<rparr>)"
  "lexer_next \<lparr>offset = 55, line = 0, column = 55, input = demo_source\<rparr> =
     Inr (Some (Lexeme None (Position 56 0 56) (Some ''}'')),
       \<lparr>offset = 57, line = 0, column = 57, input = demo_source\<rparr>)"
  "lexer_next \<lparr>offset = 57, line = 0, column = 57, input = demo_source\<rparr> =
     Inr (Some (Lexeme None (Position 58 0 58) (Some ''}'')),
       \<lparr>offset = 59, line = 0, column = 59, input = demo_source\<rparr>)"
  "lexer_next \<lparr>offset = 59, line = 0, column = 59, input = demo_source\<rparr> =
     Inr (Some (Lexeme (Some EOF) (Position 59 0 59) None),
       \<lparr>offset = 59, line = 0, column = 59, input = demo_source\<rparr>)"
  by (simp_all add: demo_source_def) code_simp+

lemma precedence_source_lexemes:
  "lexer_next \<lparr>offset = 0, line = 0, column = 0, input = precedence_source\<rparr> =
     Inr (Some (Lexeme (Some KEYWORD) (Position 0 0 0) (Some ''namespace'')),
       \<lparr>offset = 9, line = 0, column = 9, input = precedence_source\<rparr>)"
  "lexer_next \<lparr>offset = 9, line = 0, column = 9, input = precedence_source\<rparr> =
     Inr (Some (Lexeme (Some IDENTIFIER) (Position 10 0 10) (Some ''n'')),
       \<lparr>offset = 11, line = 0, column = 11, input = precedence_source\<rparr>)"
  "lexer_next \<lparr>offset = 11, line = 0, column = 11, input = precedence_source\<rparr> =
     Inr (Some (Lexeme None (Position 12 0 12) (Some ''{'')),
       \<lparr>offset = 13, line = 0, column = 13, input = precedence_source\<rparr>)"
  "lexer_next \<lparr>offset = 13, line = 0, column = 13, input = precedence_source\<rparr> =
     Inr (Some (Lexeme (Some KEYWORD) (Position 14 0 14) (Some ''function'')),
       \<lparr>offset = 22, line = 0, column = 22, input = precedence_source\<rparr>)"
  "lexer_next \<lparr>offset = 22, line = 0, column = 22, input = precedence_source\<rparr> =
     Inr (Some (Lexeme (Some IDENTIFIER) (Position 23 0 23) (Some ''f'')),
       \<lparr>offset = 24, line = 0, column = 24, input = precedence_source\<rparr>)"
  "lexer_next \<lparr>offset = 24, line = 0, column = 24, input = precedence_source\<rparr> =
     Inr (Some (Lexeme None (Position 24 0 24) (Some ''('')),
       \<lparr>offset = 25, line = 0, column = 25, input = precedence_source\<rparr>)"
  "lexer_next \<lparr>offset = 25, line = 0, column = 25, input = precedence_source\<rparr> =
     Inr (Some (Lexeme None (Position 25 0 25) (Some '')'')),
       \<lparr>offset = 26, line = 0, column = 26, input = precedence_source\<rparr>)"
  "lexer_next \<lparr>offset = 26, line = 0, column = 26, input = precedence_source\<rparr> =
     Inr (Some (Lexeme None (Position 26 0 26) (Some '':'')),
       \<lparr>offset = 27, line = 0, column = 27, input = precedence_source\<rparr>)"
  "lexer_next \<lparr>offset = 27, line = 0, column = 27, input = precedence_source\<rparr> =
     Inr (Some (Lexeme (Some TYPE') (Position 28 0 28) (Some ''Void'')),
       \<lparr>offset = 32, line = 0, column = 32, input = precedence_source\<rparr>)"
  "lexer_next \<lparr>offset = 32, line = 0, column = 32, input = precedence_source\<rparr> =
     Inr (Some (Lexeme None (Position 33 0 33) (Some ''{'')),
       \<lparr>offset = 34, line = 0, column = 34, input = precedence_source\<rparr>)"
  "lexer_next \<lparr>offset = 34, line = 0, column = 34, input = precedence_source\<rparr> =
     Inr (Some (Lexeme (Some KEYWORD) (Position 35 0 35) (Some ''var'')),
       \<lparr>offset = 38, line = 0, column = 38, input = precedence_source\<rparr>)"
  "lexer_next \<lparr>offset = 38, line = 0, column = 38, input = precedence_source\<rparr> =
     Inr (Some (Lexeme (Some IDENTIFIER) (Position 39 0 39) (Some ''x'')),
       \<lparr>offset = 40, line = 0, column = 40, input = precedence_source\<rparr>)"
  "lexer_next \<lparr>offset = 40, line = 0, column = 40, input = precedence_source\<rparr> =
     Inr (Some (Lexeme None (Position 41 0 41) (Some ''='')),
       \<lparr>offset = 42, line = 0, column = 42, input = precedence_source\<rparr>)"
  "lexer_next \<lparr>offset = 42, line = 0, column = 42, input = precedence_source\<rparr> =
     Inr (Some (Lexeme (Some INT') (Position 43 0 43) (Some ''1'')),
       \<lparr>offset = 44, line = 0, column = 44, input = precedence_source\<rparr>)"
  "lexer_next \<lparr>offset = 44, line = 0, column = 44, input = precedence_source\<rparr> =
     Inr (Some (Lexeme None (Position 44 0 44) (Some ''+'')),
       \<lparr>offset = 45, line = 0, column = 45, input = precedence_source\<rparr>)"
  "lexer_next \<lparr>offset = 45, line = 0, column = 45, input = precedence_source\<rparr> =
     Inr (Some (Lexeme (Some INT') (Position 45 0 45) (Some ''2'')),
       \<lparr>offset = 46, line = 0, column = 46, input = precedence_source\<rparr>)"
  "lexer_next \<lparr>offset = 46, line = 0, column = 46, input = precedence_source\<rparr> =
     Inr (Some (Lexeme None (Position 46 0 46) (Some ''*'')),
       \<lparr>offset = 47, line = 0, column = 47, input = precedence_source\<rparr>)"
  "lexer_next \<lparr>offset = 47, line = 0, column = 47, input = precedence_source\<rparr> =
     Inr (Some (Lexeme (Some INT') (Position 47 0 47) (Some ''3'')),
       \<lparr>offset = 48, line = 0, column = 48, input = precedence_source\<rparr>)"
  "lexer_next \<lparr>offset = 48, line = 0, column = 48, input = precedence_source\<rparr> =
     Inr (Some (Lexeme None (Position 48 0 48) (Some ''=='')),
       \<lparr>offset = 50, line = 0, column = 50, input = precedence_source\<rparr>)"
  "lexer_next \<lparr>offset = 50, line = 0, column = 50, input = precedence_source\<rparr> =
     Inr (Some (Lexeme (Some INT') (Position 50 0 50) (Some ''7'')),
       \<lparr>offset = 51, line = 0, column = 51, input = precedence_source\<rparr>)"
  "lexer_next \<lparr>offset = 51, line = 0, column = 51, input = precedence_source\<rparr> =
     Inr (Some (Lexeme None (Position 51 0 51) (Some '';'')),
       \<lparr>offset = 52, line = 0, column = 52, input = precedence_source\<rparr>)"
  "lexer_next \<lparr>offset = 52, line = 0, column = 52, input = precedence_source\<rparr> =
     Inr (Some (Lexeme None (Position 53 0 53) (Some ''}'')),
       \<lparr>offset = 54, line = 0, column = 54, input = precedence_source\<rparr>)"
  "lexer_next \<lparr>offset = 54, line = 0, column = 54, input = precedence_source\<rparr> =
     Inr (Some (Lexeme None (Position 55 0 55) (Some ''}'')),
       \<lparr>offset = 56, line = 0, column = 56, input = precedence_source\<rparr>)"
  "lexer_next \<lparr>offset = 56, line = 0, column = 56, input = precedence_source\<rparr> =
     Inr (Some (Lexeme (Some EOF) (Position 56 0 56) None),
       \<lparr>offset = 56, line = 0, column = 56, input = precedence_source\<rparr>)"
  by (simp_all add: precedence_source_def) code_simp+

lemma property_source_lexemes:
  "lexer_next \<lparr>offset = 0, line = 0, column = 0, input = property_source\<rparr> =
     Inr (Some (Lexeme (Some KEYWORD) (Position 0 0 0) (Some ''namespace'')),
       \<lparr>offset = 9, line = 0, column = 9, input = property_source\<rparr>)"
  "lexer_next \<lparr>offset = 9, line = 0, column = 9, input = property_source\<rparr> =
     Inr (Some (Lexeme (Some IDENTIFIER) (Position 10 0 10) (Some ''n'')),
       \<lparr>offset = 11, line = 0, column = 11, input = property_source\<rparr>)"
  "lexer_next \<lparr>offset = 11, line = 0, column = 11, input = property_source\<rparr> =
     Inr (Some (Lexeme None (Position 12 0 12) (Some ''{'')),
       \<lparr>offset = 13, line = 0, column = 13, input = property_source\<rparr>)"
  "lexer_next \<lparr>offset = 13, line = 0, column = 13, input = property_source\<rparr> =
     Inr (Some (Lexeme (Some KEYWORD) (Position 14 0 14) (Some ''function'')),
       \<lparr>offset = 22, line = 0, column = 22, input = property_source\<rparr>)"
  "lexer_next \<lparr>offset = 22, line = 0, column = 22, input = property_source\<rparr> =
     Inr (Some (Lexeme (Some IDENTIFIER) (Position 23 0 23) (Some ''f'')),
       \<lparr>offset = 24, line = 0, column = 24, input = property_source\<rparr>)"
  "lexer_next \<lparr>offset = 24, line = 0, column = 24, input = property_source\<rparr> =
     Inr (Some (Lexeme None (Position 24 0 24) (Some ''('')),
       \<lparr>offset = 25, line = 0, column = 25, input = property_source\<rparr>)"
  "lexer_next \<lparr>offset = 25, line = 0, column = 25, input = property_source\<rparr> =
     Inr (Some (Lexeme None (Position 25 0 25) (Some '')'')),
       \<lparr>offset = 26, line = 0, column = 26, input = property_source\<rparr>)"
  "lexer_next \<lparr>offset = 26, line = 0, column = 26, input = property_source\<rparr> =
     Inr (Some (Lexeme None (Position 26 0 26) (Some '':'')),
       \<lparr>offset = 27, line = 0, column = 27, input = property_source\<rparr>)"
  "lexer_next \<lparr>offset = 27, line = 0, column = 27, input = property_source\<rparr> =
     Inr (Some (Lexeme (Some TYPE') (Position 28 0 28) (Some ''Void'')),
       \<lparr>offset = 32, line = 0, column = 32, input = property_source\<rparr>)"
  "lexer_next \<lparr>offset = 32, line = 0, column = 32, input = property_source\<rparr> =
     Inr (Some (Lexeme None (Position 33 0 33) (Some ''{'')),
       \<lparr>offset = 34, line = 0, column = 34, input = property_source\<rparr>)"
  "lexer_next \<lparr>offset = 34, line = 0, column = 34, input = property_source\<rparr> =
     Inr (Some (Lexeme (Some KEYWORD) (Position 35 0 35) (Some ''var'')),
       \<lparr>offset = 38, line = 0, column = 38, input = property_source\<rparr>)"
  "lexer_next \<lparr>offset = 38, line = 0, column = 38, input = property_source\<rparr> =
     Inr (Some (Lexeme (Some IDENTIFIER) (Position 39 0 39) (Some ''a'')),
       \<lparr>offset = 40, line = 0, column = 40, input = property_source\<rparr>)"
  "lexer_next \<lparr>offset = 40, line = 0, column = 40, input = property_source\<rparr> =
     Inr (Some (Lexeme None (Position 41 0 41) (Some ''='')),
       \<lparr>offset = 42, line = 0, column = 42, input = property_source\<rparr>)"
  "lexer_next \<lparr>offset = 42, line = 0, column = 42, input = property_source\<rparr> =
     Inr (Some (Lexeme (Some INT') (Position 43 0 43) (Some ''1'')),
       \<lparr>offset = 44, line = 0, column = 44, input = property_source\<rparr>)"
  "lexer_next \<lparr>offset = 44, line = 0, column = 44, input = property_source\<rparr> =
     Inr (Some (Lexeme None (Position 44 0 44) (Some '';'')),
       \<lparr>offset = 45, line = 0, column = 45, input = property_source\<rparr>)"
  "lexer_next \<lparr>offset = 45, line = 0, column = 45, input = property_source\<rparr> =
     Inr (Some (Lexeme (Some IDENTIFIER) (Position 46 0 46) (Some ''a'')),
       \<lparr>offset = 47, line = 0, column = 47, input = property_source\<rparr>)"
  "lexer_next \<lparr>offset = 47, line = 0, column = 47, input = property_source\<rparr> =
     Inr (Some (Lexeme None (Position 47 0 47) (Some ''.'')),
       \<lparr>offset = 48, line = 0, column = 48, input = property_source\<rparr>)"
  "lexer_next \<lparr>offset = 48, line = 0, column = 48, input = property_source\<rparr> =
     Inr (Some (Lexeme (Some IDENTIFIER) (Position 48 0 48) (Some ''b'')),
       \<lparr>offset = 49, line = 0, column = 49, input = property_source\<rparr>)"
  "lexer_next \<lparr>offset = 49, line = 0, column = 49, input = property_source\<rparr> =
     Inr (Some (Lexeme None (Position 50 0 50) (Some ''='')),
       \<lparr>offset = 51, line = 0, column = 51, input = property_source\<rparr>)"
  "lexer_next \<lparr>offset = 51, line = 0, column = 51, input = property_source\<rparr> =
     Inr (Some (Lexeme (Some INT') (Position 52 0 52) (Some ''2'')),
       \<lparr>offset = 53, line = 0, column = 53, input = property_source\<rparr>)"
  "lexer_next \<lparr>offset = 53, line = 0, column = 53, input = property_source\<rparr> =
     Inr (Some (Lexeme None (Position 53 0 53) (Some '';'')),
       \<lparr>offset = 54, line = 0, column = 54, input = property_source\<rparr>)"
  "lexer_next \<lparr>offset = 54, line = 0, column = 54, input = property_source\<rparr> =
     Inr (Some (Lexeme None (Position 55 0 55) (Some ''}'')),
       \<lparr>offset = 56, line = 0, column = 56, input = property_source\<rparr>)"
  "lexer_next \<lparr>offset = 56, line = 0, column = 56, input = property_source\<rparr> =
     Inr (Some (Lexeme None (Position 57 0 57) (Some ''}'')),
       \<lparr>offset = 58, line = 0, column = 58, input = property_source\<rparr>)"
  "lexer_next \<lparr>offset = 58, line = 0, column = 58, input = property_source\<rparr> =
     Inr (Some (Lexeme (Some EOF) (Position 58 0 58) None),
       \<lparr>offset = 58, line = 0, column = 58, input = property_source\<rparr>)"
  by (simp_all add: property_source_def) code_simp+

lemma duplicate_source_lexemes:
  "lexer_next \<lparr>offset = 0, line = 0, column = 0, input = duplicate_source\<rparr> =
     Inr (Some (Lexeme (Some KEYWORD) (Position 0 0 0) (Some ''namespace'')),
       \<lparr>offset = 9, line = 0, column = 9, input = duplicate_source\<rparr>)"
  "lexer_next \<lparr>offset = 9, line = 0, column = 9, input = duplicate_source\<rparr> =
     Inr (Some (Lexeme (Some IDENTIFIER) (Position 10 0 10) (Some ''d'')),
       \<lparr>offset = 11, line = 0, column = 11, input = duplicate_source\<rparr>)"
  "lexer_next \<lparr>offset = 11, line = 0, column = 11, input = duplicate_source\<rparr> =
     Inr (Some (Lexeme None (Position 12 0 12) (Some ''{'')),
       \<lparr>offset = 13, line = 0, column = 13, input = duplicate_source\<rparr>)"
  "lexer_next \<lparr>offset = 13, line = 0, column = 13, input = duplicate_source\<rparr> =
     Inr (Some (Lexeme (Some KEYWORD) (Position 14 0 14) (Some ''mcfunction'')),
       \<lparr>offset = 24, line = 0, column = 24, input = duplicate_source\<rparr>)"
  "lexer_next \<lparr>offset = 24, line = 0, column = 24, input = duplicate_source\<rparr> =
     Inr (Some (Lexeme (Some STRING) (Position 25 0 25) (Some (CHR 0x27 # ''minecraft:reload'' @ [CHR 0x27]))),
       \<lparr>offset = 43, line = 0, column = 43, input = duplicate_source\<rparr>)"
  "lexer_next \<lparr>offset = 43, line = 0, column = 43, input = duplicate_source\<rparr> =
     Inr (Some (Lexeme (Some IDENTIFIER) (Position 44 0 44) (Some ''f'')),
       \<lparr>offset = 45, line = 0, column = 45, input = duplicate_source\<rparr>)"
  "lexer_next \<lparr>offset = 45, line = 0, column = 45, input = duplicate_source\<rparr> =
     Inr (Some (Lexeme None (Position 45 0 45) (Some ''('')),
       \<lparr>offset = 46, line = 0, column = 46, input = duplicate_source\<rparr>)"
  "lexer_next \<lparr>offset = 46, line = 0, column = 46, input = duplicate_source\<rparr> =
     Inr (Some (Lexeme None (Position 46 0 46) (Some '')'')),
       \<lparr>offset = 47, line = 0, column = 47, input = duplicate_source\<rparr>)"
  "lexer_next \<lparr>offset = 47, line = 0, column = 47, input = duplicate_source\<rparr> =
     Inr (Some (Lexeme None (Position 47 0 47) (Some '':'')),
       \<lparr>offset = 48, line = 0, column = 48, input = duplicate_source\<rparr>)"
  "lexer_next \<lparr>offset = 48, line = 0, column = 48, input = duplicate_source\<rparr> =
     Inr (Some (Lexeme (Some TYPE') (Position 49 0 49) (Some ''Void'')),
       \<lparr>offset = 53, line = 0, column = 53, input = duplicate_source\<rparr>)"
  "lexer_next \<lparr>offset = 53, line = 0, column = 53, input = duplicate_source\<rparr> =
     Inr (Some (Lexeme None (Position 53 0 53) (Some '';'')),
       \<lparr>offset = 54, line = 0, column = 54, input = duplicate_source\<rparr>)"
  "lexer_next \<lparr>offset = 54, line = 0, column = 54, input = duplicate_source\<rparr> =
     Inr (Some (Lexeme (Some KEYWORD) (Position 55 0 55) (Some ''function'')),
       \<lparr>offset = 63, line = 0, column = 63, input = duplicate_source\<rparr>)"
  "lexer_next \<lparr>offset = 63, line = 0, column = 63, input = duplicate_source\<rparr> =
     Inr (Some (Lexeme (Some IDENTIFIER) (Position 64 0 64) (Some ''f'')),
       \<lparr>offset = 65, line = 0, column = 65, input = duplicate_source\<rparr>)"
  "lexer_next \<lparr>offset = 65, line = 0, column = 65, input = duplicate_source\<rparr> =
     Inr (Some (Lexeme None (Position 65 0 65) (Some ''('')),
       \<lparr>offset = 66, line = 0, column = 66, input = duplicate_source\<rparr>)"
  "lexer_next \<lparr>offset = 66, line = 0, column = 66, input = duplicate_source\<rparr> =
     Inr (Some (Lexeme None (Position 66 0 66) (Some '')'')),
       \<lparr>offset = 67, line = 0, column = 67, input = duplicate_source\<rparr>)"
  "lexer_next \<lparr>offset = 67, line = 0, column = 67, input = duplicate_source\<rparr> =
     Inr (Some (Lexeme None (Position 67 0 67) (Some '':'')),
       \<lparr>offset = 68, line = 0, column = 68, input = duplicate_source\<rparr>)"
  "lexer_next \<lparr>offset = 68, line = 0, column = 68, input = duplicate_source\<rparr> =
     Inr (Some (Lexeme (Some TYPE') (Position 69 0 69) (Some ''Void'')),
       \<lparr>offset = 73, line = 0, column = 73, input = duplicate_source\<rparr>)"
  "lexer_next \<lparr>offset = 73, line = 0, column = 73, input = duplicate_source\<rparr> =
     Inr (Some (Lexeme None (Position 74 0 74) (Some ''{'')),
       \<lparr>offset = 75, line = 0, column = 75, input = duplicate_source\<rparr>)"
  "lexer_next \<lparr>offset = 75, line = 0, column = 75, input = duplicate_source\<rparr> =
     Inr (Some (Lexeme None (Position 76 0 76) (Some ''}'')),
       \<lparr>offset = 77, line = 0, column = 77, input = duplicate_source\<rparr>)"
  "lexer_next \<lparr>offset = 77, line = 0, column = 77, input = duplicate_source\<rparr> =
     Inr (Some (Lexeme None (Position 78 0 78) (Some ''}'')),
       \<lparr>offset = 79, line = 0, column = 79, input = duplicate_source\<rparr>)"
  "lexer_next \<lparr>offset = 79, line = 0, column = 79, input = duplicate_source\<rparr> =
     Inr (Some (Lexeme (Some EOF) (Position 79 0 79) None),
       \<lparr>offset = 79, line = 0, column = 79, input = duplicate_source\<rparr>)"
  by (simp_all add: duplicate_source_def) code_simp+


lemma arity_source_lexemes:
  "lexer_next \<lparr>offset = 0, line = 0, column = 0, input = arity_source\<rparr> =
     Inr (Some (Lexeme (Some KEYWORD) (Position 0 0 0) (Some ''import'')),
       \<lparr>offset = 6, line = 0, column = 6, input = arity_source\<rparr>)"
  "lexer_next \<lparr>offset = 6, line = 0, column = 6, input = arity_source\<rparr> =
     Inr (Some (Lexeme (Some IDENTIFIER) (Position 7 0 7) (Some ''d'')),
       \<lparr>offset = 8, line = 0, column = 8, input = arity_source\<rparr>)"
  "lexer_next \<lparr>offset = 8, line = 0, column = 8, input = arity_source\<rparr> =
     Inr (Some (Lexeme (Some DOUBLE) (Position 8 0 8) (Some ''.'')),
       \<lparr>offset = 9, line = 0, column = 9, input = arity_source\<rparr>)"
  "lexer_next \<lparr>offset = 9, line = 0, column = 9, input = arity_source\<rparr> =
     Inr (Some (Lexeme (Some IDENTIFIER) (Position 9 0 9) (Some ''run'')),
       \<lparr>offset = 12, line = 0, column = 12, input = arity_source\<rparr>)"
  "lexer_next \<lparr>offset = 12, line = 0, column = 12, input = arity_source\<rparr> =
     Inr (Some (Lexeme None (Position 12 0 12) (Some '';'')),
       \<lparr>offset = 13, line = 0, column = 13, input = arity_source\<rparr>)"
  "lexer_next \<lparr>offset = 13, line = 0, column = 13, input = arity_source\<rparr> =
     Inr (Some (Lexeme (Some KEYWORD) (Position 14 0 14) (Some ''import'')),
       \<lparr>offset = 20, line = 0, column = 20, input = arity_source\<rparr>)"
  "lexer_next \<lparr>offset = 20, line = 0, column = 20, input = arity_source\<rparr> =
     Inr (Some (Lexeme (Some IDENTIFIER) (Position 21 0 21) (Some ''d'')),
       \<lparr>offset = 22, line = 0, column = 22, input = arity_source\<rparr>)"
  "lexer_next \<lparr>offset = 22, line = 0, column = 22, input = arity_source\<rparr> =
     Inr (Some (Lexeme (Some DOUBLE) (Position 22 0 22) (Some ''.'')),
       \<lparr>offset = 23, line = 0, column = 23, input = arity_source\<rparr>)"
  "lexer_next \<lparr>offset = 23, line = 0, column = 23, input = arity_source\<rparr> =
     Inr (Some (Lexeme (Some IDENTIFIER) (Position 23 0 23) (Some ''go'')),
       \<lparr>offset = 25, line = 0, column = 25, input = arity_source\<rparr>)"
  "lexer_next \<lparr>offset = 25, line = 0, column = 25, input = arity_source\<rparr> =
     Inr (Some (Lexeme None (Position 25 0 25) (Some '';'')),
       \<lparr>offset = 26, line = 0, column = 26, input = arity_source\<rparr>)"
  "lexer_next \<lparr>offset = 26, line = 0, column = 26, input = arity_source\<rparr> =
     Inr (Some (Lexeme (Some KEYWORD) (Position 27 0 27) (Some ''namespace'')),
       \<lparr>offset = 36, line = 0, column = 36, input = arity_source\<rparr>)"
  "lexer_next \<lparr>offset = 36, line = 0, column = 36, input = arity_source\<rparr> =
     Inr (Some (Lexeme (Some IDENTIFIER) (Position 37 0 37) (Some ''d'')),
       \<lparr>offset = 38, line = 0, column = 38, input = arity_source\<rparr>)"
  "lexer_next \<lparr>offset = 38, line = 0, column = 38, input = arity_source\<rparr> =
     Inr (Some (Lexeme None (Position 39 0 39) (Some ''{'')),
       \<lparr>offset = 40, line = 0, column = 40, input = arity_source\<rparr>)"
  "lexer_next \<lparr>offset = 40, line = 0, column = 40, input = arity_source\<rparr> =
     Inr (Some (Lexeme (Some KEYWORD) (Position 41 0 41) (Some ''mcfunction'')),
       \<lparr>offset = 51, line = 0, column = 51, input = arity_source\<rparr>)"
  "lexer_next \<lparr>offset = 51, line = 0, column = 51, input = arity_source\<rparr> =
     Inr (Some (Lexeme (Some STRING) (Position 52 0 52) (Some (CHR 0x27 # ''a:b'' @ [CHR 0x27]))),
       \<lparr>offset = 57, line = 0, column = 57, input = arity_source\<rparr>)"
  "lexer_next \<lparr>offset = 57, line = 0, column = 57, input = arity_source\<rparr> =
     Inr (Some (Lexeme (Some IDENTIFIER) (Position 58 0 58) (Some ''run'')),
       \<lparr>offset = 61, line = 0, column = 61, input = arity_source\<rparr>)"
  "lexer_next \<lparr>offset = 61, line = 0, column = 61, input = arity_source\<rparr> =
     Inr (Some (Lexeme None (Position 61 0 61) (Some ''('')),
       \<lparr>offset = 62, line = 0, column = 62, input = arity_source\<rparr>)"
  "lexer_next \<lparr>offset = 62, line = 0, column = 62, input = arity_source\<rparr> =
     Inr (Some (Lexeme (Some IDENTIFIER) (Position 62 0 62) (Some ''p'')),
       \<lparr>offset = 63, line = 0, column = 63, input = arity_source\<rparr>)"
  "lexer_next \<lparr>offset = 63, line = 0, column = 63, input = arity_source\<rparr> =
     Inr (Some (Lexeme None (Position 63 0 63) (Some '':'')),
       \<lparr>offset = 64, line = 0, column = 64, input = arity_source\<rparr>)"
  "lexer_next \<lparr>offset = 64, line = 0, column = 64, input = arity_source\<rparr> =
     Inr (Some (Lexeme (Some TYPE') (Position 65 0 65) (Some ''Int'')),
       \<lparr>offset = 68, line = 0, column = 68, input = arity_source\<rparr>)"
  "lexer_next \<lparr>offset = 68, line = 0, column = 68, input = arity_source\<rparr> =
     Inr (Some (Lexeme None (Position 68 0 68) (Some '')'')),
       \<lparr>offset = 69, line = 0, column = 69, input = arity_source\<rparr>)"
  "lexer_next \<lparr>offset = 69, line = 0, column = 69, input = arity_source\<rparr> =
     Inr (Some (Lexeme None (Position 69 0 69) (Some '':'')),
       \<lparr>offset = 70, line = 0, column = 70, input = arity_source\<rparr>)"
  "lexer_next \<lparr>offset = 70, line = 0, column = 70, input = arity_source\<rparr> =
     Inr (Some (Lexeme (Some TYPE') (Position 71 0 71) (Some ''Void'')),
       \<lparr>offset = 75, line = 0, column = 75, input = arity_source\<rparr>)"
  "lexer_next \<lparr>offset = 75, line = 0, column = 75, input = arity_source\<rparr> =
     Inr (Some (Lexeme None (Position 75 0 75) (Some '';'')),
       \<lparr>offset = 76, line = 0, column = 76, input = arity_source\<rparr>)"
  "lexer_next \<lparr>offset = 76, line = 0, column = 76, input = arity_source\<rparr> =
     Inr (Some (Lexeme (Some KEYWORD) (Position 77 0 77) (Some ''mcfunction'')),
       \<lparr>offset = 87, line = 0, column = 87, input = arity_source\<rparr>)"
  "lexer_next \<lparr>offset = 87, line = 0, column = 87, input = arity_source\<rparr> =
     Inr (Some (Lexeme (Some STRING) (Position 88 0 88) (Some (CHR 0x27 # ''c:e'' @ [CHR 0x27]))),
       \<lparr>offset = 93, line = 0, column = 93, input = arity_source\<rparr>)"
  "lexer_next \<lparr>offset = 93, line = 0, column = 93, input = arity_source\<rparr> =
     Inr (Some (Lexeme (Some IDENTIFIER) (Position 94 0 94) (Some ''go'')),
       \<lparr>offset = 96, line = 0, column = 96, input = arity_source\<rparr>)"
  "lexer_next \<lparr>offset = 96, line = 0, column = 96, input = arity_source\<rparr> =
     Inr (Some (Lexeme None (Position 96 0 96) (Some ''('')),
       \<lparr>offset = 97, line = 0, column = 97, input = arity_source\<rparr>)"
  "lexer_next \<lparr>offset = 97, line = 0, column = 97, input = arity_source\<rparr> =
     Inr (Some (Lexeme None (Position 97 0 97) (Some '')'')),
       \<lparr>offset = 98, line = 0, column = 98, input = arity_source\<rparr>)"
  "lexer_next \<lparr>offset = 98, line = 0, column = 98, input = arity_source\<rparr> =
     Inr (Some (Lexeme None (Position 98 0 98) (Some '':'')),
       \<lparr>offset = 99, line = 0, column = 99, input = arity_source\<rparr>)"
  "lexer_next \<lparr>offset = 99, line = 0, column = 99, input = arity_source\<rparr> =
     Inr (Some (Lexeme (Some TYPE') (Position 100 0 100) (Some ''Void'')),
       \<lparr>offset = 104, line = 0, column = 104, input = arity_source\<rparr>)"
  "lexer_next \<lparr>offset = 104, line = 0, column = 104, input = arity_source\<rparr> =
     Inr (Some (Lexeme None (Position 104 0 104) (Some '';'')),
       \<lparr>offset = 105, line = 0, column = 105, input = arity_source\<rparr>)"
  "lexer_next \<lparr>offset = 105, line = 0, column = 105, input = arity_source\<rparr> =
     Inr (Some (Lexeme (Some KEYWORD) (Position 106 0 106) (Some ''function'')),
       \<lparr>offset = 114, line = 0, column = 114, input = arity_source\<rparr>)"
  "lexer_next \<lparr>offset = 114, line = 0, column = 114, input = arity_source\<rparr> =
     Inr (Some (Lexeme (Some IDENTIFIER) (Position 115 0 115) (Some ''h'')),
       \<lparr>offset = 116, line = 0, column = 116, input = arity_source\<rparr>)"
  "lexer_next \<lparr>offset = 116, line = 0, column = 116, input = arity_source\<rparr> =
     Inr (Some (Lexeme None (Position 116 0 116) (Some ''('')),
       \<lparr>offset = 117, line = 0, column = 117, input = arity_source\<rparr>)"
  "lexer_next \<lparr>offset = 117, line = 0, column = 117, input = arity_source\<rparr> =
     Inr (Some (Lexeme None (Position 117 0 117) (Some '')'')),
       \<lparr>offset = 118, line = 0, column = 118, input = arity_source\<rparr>)"
  "lexer_next \<lparr>offset = 118, line = 0, column = 118, input = arity_source\<rparr> =
     Inr (Some (Lexeme None (Position 118 0 118) (Some '':'')),
       \<lparr>offset = 119, line = 0, column = 119, input = arity_source\<rparr>)"
  "lexer_next \<lparr>offset = 119, line = 0, column = 119, input = arity_source\<rparr> =
     Inr (Some (Lexeme (Some TYPE') (Position 120 0 120) (Some ''Void'')),
       \<lparr>offset = 124, line = 0, column = 124, input = arity_source\<rparr>)"
  "lexer_next \<lparr>offset = 124, line = 0, column = 124, input = arity_source\<rparr> =
     Inr (Some (Lexeme None (Position 125 0 125) (Some ''{'')),
       \<lparr>offset = 126, line = 0, column = 126, input = arity_source\<rparr>)"
  "lexer_next \<lparr>offset = 126, line = 0, column = 126, input = arity_source\<rparr> =
     Inr (Some (Lexeme (Some IDENTIFIER) (Position 127 0 127) (Some ''go'')),
       \<lparr>offset = 129, line = 0, column = 129, input = arity_source\<rparr>)"
  "lexer_next \<lparr>offset = 129, line = 0, column = 129, input = arity_source\<rparr> =
     Inr (Some (Lexeme None (Position 129 0 129) (Some ''('')),
       \<lparr>offset = 130, line = 0, column = 130, input = arity_source\<rparr>)"
  "lexer_next \<lparr>offset = 130, line = 0, column = 130, input = arity_source\<rparr> =
     Inr (Some (Lexeme (Some INT') (Position 130 0 130) (Some ''1'')),
       \<lparr>offset = 131, line = 0, column = 131, input = arity_source\<rparr>)"
  "lexer_next \<lparr>offset = 131, line = 0, column = 131, input = arity_source\<rparr> =
     Inr (Some (Lexeme None (Position 131 0 131) (Some '','')),
       \<lparr>offset = 132, line = 0, column = 132, input = arity_source\<rparr>)"
  "lexer_next \<lparr>offset = 132, line = 0, column = 132, input = arity_source\<rparr> =
     Inr (Some (Lexeme (Some IDENTIFIER) (Position 133 0 133) (Some ''run'')),
       \<lparr>offset = 136, line = 0, column = 136, input = arity_source\<rparr>)"
  "lexer_next \<lparr>offset = 136, line = 0, column = 136, input = arity_source\<rparr> =
     Inr (Some (Lexeme None (Position 136 0 136) (Some ''('')),
       \<lparr>offset = 137, line = 0, column = 137, input = arity_source\<rparr>)"
  "lexer_next \<lparr>offset = 137, line = 0, column = 137, input = arity_source\<rparr> =
     Inr (Some (Lexeme None (Position 137 0 137) (Some '')'')),
       \<lparr>offset = 138, line = 0, column = 138, input = arity_source\<rparr>)"
  "lexer_next \<lparr>offset = 138, line = 0, column = 138, input = arity_source\<rparr> =
     Inr (Some (Lexeme None (Position 138 0 138) (Some '')'')),
       \<lparr>offset = 139, line = 0, column = 139, input = arity_source\<rparr>)"
  "lexer_next \<lparr>offset = 139, line = 0, column = 139, input = arity_source\<rparr> =
     Inr (Some (Lexeme None (Position 139 0 139) (Some '';'')),
       \<lparr>offset = 140, line = 0, column = 140, input = arity_source\<rparr>)"
  "lexer_next \<lparr>offset = 140, line = 0, column = 140, input = arity_source\<rparr> =
     Inr (Some (Lexeme None (Position 141 0 141) (Some ''}'')),
       \<lparr>offset = 142, line = 0, column = 142, input = arity_source\<rparr>)"
  "lexer_next \<lparr>offset = 142, line = 0, column = 142, input = arity_source\<rparr> =
     Inr (Some (Lexeme None (Position 143 0 143) (Some ''}'')),
       \<lparr>offset = 144, line = 0, column = 144, input = arity_source\<rparr>)"
  "lexer_next \<lparr>offset = 144, line = 0, column = 144, input = arity_source\<rparr> =
     Inr (Some (Lexeme (Some EOF) (Position 144 0 144) None),
       \<lparr>offset = 144, line = 0, column = 144, input = arity_source\<rparr>)"
  by (simp_all add: arity_source_def) code_simp+

section \<open>The compiler on the sample programs\<close>

lemmas emitter_defs =
  write_commands_def write_command_def do_if_enter_def do_if_leave_def prologue_def
  function_storage_def load_raw_def format_literal_def format_suffix_def truthy_def find_char_def
  replace_char_def write_type_conversion_def numeric_sources_def numeric_targets_def
  declare_variable_def CUBENT_STORAGE_def CUBENT_SCOREBOARD_def lower_def
  str_def str_nat.simps digit_char_def code_def Let_def

lemmas compile_defs =
  compile_def version_lt_def MINIMAL_VERSION_def makedirs_def write_cubent_function_def
  write_mcfunction_def sample_uuid_def unescape_def unescape_from.simps split_location_def

lemma precedence_source_parsed:
  "compile_file 20 precedence_source [] =
     Inr [CubentFunction [''n'', ''f''] [] Void
       [Command (Position 43 0 43) (LOAD Int' (IntLit 1)),
        Command (Position 45 0 45) (LOAD Int' (IntLit 2)),
        Command (Position 44 0 44) ADD,
        Command (Position 47 0 47) (LOAD Int' (IntLit 3)),
        Command (Position 46 0 46) MUL,
        Command (Position 50 0 50) (LOAD Int' (IntLit 7)),
        Command (Position 48 0 48) EQ,
        Command (Position 39 0 39) (DECLARE_VAR ''x'')]]"
  by (simp add: fuel_unfold parser_defs precedence_source_lexemes)

lemma demo_source_parsed:
  "compile_file 20 demo_source [] =
     Inr [CubentFunction [''demo'', ''main''] [] Void
       [Command (Position 49 0 49) (LOAD Int' (IntLit 1)),
        Command (Position 53 0 53) (LOAD Int' (IntLit 2)),
        Command (Position 51 0 51) ADD,
        Command (Position 45 0 45) (DECLARE_VAR ''x'')]]"
  by (simp add: fuel_unfold parser_defs demo_source_lexemes)

lemma property_source_parsed:
  "compile_file 20 property_source [] =
     Inr [CubentFunction [''n'', ''f''] [] Void
       [Command (Position 43 0 43) (LOAD Int' (IntLit 1)),
        Command (Position 39 0 39) (DECLARE_VAR ''a''),
        Command (Position 52 0 52) (LOAD Int' (IntLit 2)),
        Command (Position 46 0 46) (GET_VAR ''a''),
        Command (Position 48 0 48) (SET_PROP ''b'')]]"
  by (simp add: fuel_unfold parser_defs property_source_lexemes)

lemma duplicate_source_parsed:
  "compile_file 20 duplicate_source [] =
     Inr [MCFunction [''d'', ''f''] [] Void ''minecraft:reload'',
          CubentFunction [''d'', ''f''] [] Void []]"
  by (simp add: fuel_unfold parser_defs compile_defs duplicate_source_lexemes)


text \<open>
  C1. The body \<^verbatim>\<open>var x = 1+2*3==7;\<close> is claimed to parse into the postfix form
  \<^verbatim>\<open>1 2 3 * + 7 ==\<close>. The parser appends every operator right after the primary that
  follows it, so the commands are \<^verbatim>\<open>1 2 + 3 * 7 ==\<close>: the operators apply from left to
  right, whatever their level in \<^verbatim>\<open>Compiler.operators\<close>.
\<close>

theorem precedence_example_left_to_right:
  "map_sum id (map (map operation \<circ> function_commands)) (compile_file 20 precedence_source [])
     = Inr [[LOAD Int' (IntLit 1), LOAD Int' (IntLit 2), ADD, LOAD Int' (IntLit 3), MUL,
             LOAD Int' (IntLit 7), EQ, DECLARE_VAR ''x'']]"
  by (simp add: precedence_source_parsed)

text \<open>
  C2. Compiling the program \<^verbatim>\<open>namespace demo { function main(): Void { var x = 1 + 2; } }\<close>
  is claimed to write, after the pushes and the \<^verbatim>\<open>ADD\<close> sequence, the two lines of a
  \<^verbatim>\<open>SET_VAR\<close> into \<^verbatim>\<open>Variables.x\<close>. The file ends with the \<^verbatim>\<open>ADD\<close> sequence: the branch of
  \<^verbatim>\<open>DECLARE_VAR\<close> pops the type and declares the variable, and writes nothing.
\<close>

theorem declare_var_writes_nothing:
  "compile 20 sample_uuid [Some [demo_source]] (MinecraftVersion 1 14 1) =
     Inr \<lparr>directories =
            [[], [''data''], [''data'', ''id0''], [''data'', ''id0'', ''functions''],
             [''data'', ''demo''], [''data'', ''demo'', ''functions'']],
          files =
            [([''data'', ''demo'', ''functions'', ''main.mcfunction''],
              [''scoreboard objectives add cubent.scoreboard dummy'',
               ''data modify storage id0.demo:main Stack set value []'',
               ''execute unless data storage id0.demo:main Variables run data modify storage id0.demo:main Variables set value {}'',
               ''data modify storage id0.demo:main Stack append value {Value:1}'',
               ''data modify storage id0.demo:main Stack append value {Value:2}'',
               ''execute store result score 1 cubent.scoreboard run data get storage id0.demo:main Stack[-1].Value'',
               ''data remove storage id0.demo:main Stack[-1]'',
               ''execute store result score 2 cubent.scoreboard run data get storage id0.demo:main Stack[-1].Value'',
               ''data remove storage id0.demo:main Stack[-1]'',
               ''scoreboard players operation 1 cubent.scoreboard += 2 cubent.scoreboard'',
               ''data modify storage id0.demo:main Stack append value {}'',
               ''execute store result storage id0.demo:main Stack[-1].Value int 1.0 run scoreboard players get 1 cubent.scoreboard''])]\<rparr>"
  by (simp add: demo_source_parsed emitter_defs compile_defs)

text \<open>
  C3. The version gate is claimed to refuse exactly the versions below \<open>1.14.1\<close> in the
  lexicographic order, written out here as \<open>version_below\<close>. \<^verbatim>\<open>__lt__\<close> compares the
  three numbers one by one and joins the comparisons by \<^verbatim>\<open>or\<close>, so version \<open>1.15.0\<close>,
  which is not below \<open>1.14.1\<close>, is refused too, whatever the sources are.
\<close>

theorem version_gate_refuses_1_15_0:
  "compile n uuid source_path (MinecraftVersion 1 15 0) = Inl VersionError
   \<and> \<not> version_below (MinecraftVersion 1 15 0) MINIMAL_VERSION"
  by (simp add: compile_def version_lt_def version_below_def MINIMAL_VERSION_def)

section \<open>Calls in the emitter\<close>

lemma arity_source_parsed:
  "compile_file 20 arity_source [] =
     Inr [MCFunction [''d'', ''run''] [(''p'', Int')] Void ''a:b'',
          MCFunction [''d'', ''go''] [] Void ''c:e'',
          CubentFunction [''d'', ''h''] [] Void
            [Command (Position 130 0 130) (LOAD Int' (IntLit 1)),
             Command (Position 133 0 133) (CALL [''d'', ''run''] 0),
             Command (Position 127 0 127) (CALL [''d'', ''go''] 2)]]"
  by (simp add: fuel_unfold parser_defs compile_defs arity_source_lexemes)


lemma call_arguments_succeeds:
  "length ps \<le> length stk \<Longrightarrow>
   list_all2 (\<lambda>parameter argument_type.
       \<exists>conv. write_type_conversion argument_type (snd parameter) fs = Inr (True, conv))
     ps (take (length ps) stk) \<Longrightarrow>
   \<exists>out'. call_arguments pos fs ps stk out = Inr (drop (length ps) stk, out')"
proof (induction ps arbitrary: stk out)
  case Nil
  then show ?case by simp
next
  case (Cons p ps)
  obtain parameter_name parameter_type where p: "p = (parameter_name, parameter_type)"
    by (cases p)
  from Cons.prems(1) obtain argument_type stk1 where stk: "stk = argument_type # stk1"
    by (cases stk) auto
  from Cons.prems(2) stk p obtain conv where
    conv: "write_type_conversion argument_type parameter_type fs = Inr (True, conv)"
    by auto
  from Cons.prems stk have "length ps \<le> length stk1"
    "list_all2 (\<lambda>parameter argument_type.
       \<exists>conv. write_type_conversion argument_type (snd parameter) fs = Inr (True, conv))
     ps (take (length ps) stk1)"
    by simp_all
  from Cons.IH [OF this] conv stk p show ?case by simp
qed




text \<open>
  C10. The branch of \<^verbatim>\<open>CALL\<close> never reads the argument count recorded in the command: the
  result of a \<^verbatim>\<open>CALL\<close> is the same for every count. The call \<^verbatim>\<open>go(x, y)\<close> of a function
  without parameters leaves both argument types on the stack; the call \<^verbatim>\<open>run()\<close> of a
  function with one parameter takes the type pushed before it. The parser records the
  count without comparing it: in \<^verbatim>\<open>go(1, run())\<close> the call of \<^verbatim>\<open>run\<close> has no argument and
  that of \<^verbatim>\<open>go\<close> has two, \<^verbatim>\<open>run\<close> takes the \<^verbatim>\<open>1\<close> written for \<^verbatim>\<open>go\<close>, and the program
  compiles.
\<close>

theorem call_ignores_argc:
  "write_command env pos (CALL path argc) st = write_command env pos (CALL path argc') st
   \<and> write_command call_env (Position 9 0 9) (CALL [''d'', ''go''] 2)
       \<lparr>stack = [Int', Boolean], scope = Scope None [], lines = [], helpers = [], uuids = 1\<rparr> =
     Inr \<lparr>stack = [Int', Boolean], scope = Scope None [],
           lines =
             [''data modify storage cubent:storage Arguments set value []'',
              ''function c:e''],
           helpers = [], uuids = 1\<rparr>
   \<and> write_command call_env (Position 9 0 9) (CALL [''d'', ''run''] 0)
       \<lparr>stack = [Int', Boolean], scope = Scope None [], lines = [], helpers = [], uuids = 1\<rparr> =
     Inr \<lparr>stack = [Boolean], scope = Scope None [],
           lines =
             [''data modify storage cubent:storage Arguments set value []'',
              ''data modify storage cubent:storage Arguments append from storage id0.d:h Stack[-1]'',
              ''data remove storage id0.d:h Stack[-1]'',
              ''function a:b''],
           helpers = [], uuids = 1\<rparr>
   \<and> compile_file 20 arity_source [] =
     Inr [MCFunction [''d'', ''run''] [(''p'', Int')] Void ''a:b'',
          MCFunction [''d'', ''go''] [] Void ''c:e'',
          CubentFunction [''d'', ''h''] [] Void
            [Command (Position 130 0 130) (LOAD Int' (IntLit 1)),
             Command (Position 133 0 133) (CALL [''d'', ''run''] 0),
             Command (Position 127 0 127) (CALL [''d'', ''go''] 2)]]
   \<and> compile 20 sample_uuid [Some [arity_source]] (MinecraftVersion 1 14 1) =
     Inr \<lparr>directories =
            [[], [''data''], [''data'', ''id0''], [''data'', ''id0'', ''functions''],
             [''data'', ''a''], [''data'', ''a'', ''functions''],
             [''data'', ''c''], [''data'', ''c'', ''functions''],
             [''data'', ''d''], [''data'', ''d'', ''functions'']],
          files =
            [([''data'', ''d'', ''functions'', ''h.mcfunction''],
              [''scoreboard objectives add cubent.scoreboard dummy'',
               ''data modify storage id0.d:h Stack set value []'',
               ''execute unless data storage id0.d:h Variables run data modify storage id0.d:h Variables set value {}'',
               ''data modify storage id0.d:h Stack append value {Value:1}'',
               ''data modify storage cubent:storage Arguments set value []'',
               ''data modify storage cubent:storage Arguments append from storage id0.d:h Stack[-1]'',
               ''data remove storage id0.d:h Stack[-1]'',
               ''function a:b'',
               ''data modify storage cubent:storage Arguments set value []'',
               ''function c:e''])]\<rparr>"
proof (intro conjI)
  show "write_command env pos (CALL path argc) st = write_command env pos (CALL path argc') st"
    by (simp add: write_command_def)
next
  show "compile_file 20 arity_source [] =
     Inr [MCFunction [''d'', ''run''] [(''p'', Int')] Void ''a:b'',
          MCFunction [''d'', ''go''] [] Void ''c:e'',
          CubentFunction [''d'', ''h''] [] Void
            [Command (Position 130 0 130) (LOAD Int' (IntLit 1)),
             Command (Position 133 0 133) (CALL [''d'', ''run''] 0),
             Command (Position 127 0 127) (CALL [''d'', ''go''] 2)]]"
    by (rule arity_source_parsed)
next
  show "compile 20 sample_uuid [Some [arity_source]] (MinecraftVersion 1 14 1) =
     Inr \<lparr>directories =
            [[], [''data''], [''data'', ''id0''], [''data'', ''id0'', ''functions''],
             [''data'', ''a''], [''data'', ''a'', ''functions''],
             [''data'', ''c''], [''data'', ''c'', ''functions''],
             [''data'', ''d''], [''data'', ''d'', ''functions'']],
          files =
            [([''data'', ''d'', ''functions'', ''h.mcfunction''],
              [''scoreboard objectives add cubent.scoreboard dummy'',
               ''data modify storage id0.d:h Stack set value []'',
               ''execute unless data storage id0.d:h Variables run data modify storage id0.d:h Variables set value {}'',
               ''data modify storage id0.d:h Stack append value {Value:1}'',
               ''data modify storage cubent:storage Arguments set value []'',
               ''data modify storage cubent:storage Arguments append from storage id0.d:h Stack[-1]'',
               ''data remove storage id0.d:h Stack[-1]'',
               ''function a:b'',
               ''data modify storage cubent:storage Arguments set value []'',
               ''function c:e''])]\<rparr>"
    by (simp add: arity_source_parsed emitter_defs compile_defs)
qed (simp_all add: call_env_def emitter_defs sample_uuid_def)

section \<open>Declarations with the same path\<close>

text \<open>
  Both branches of \<^verbatim>\<open>compile_structure\<close> end with \<^verbatim>\<open>self.functions.append\<close>; what they
  read and return does not depend on the descriptors already in the list.
\<close>

lemma compile_mcfunction_appends:
  "compile_mcfunction n lx namespace functions = Inr (functions1, lx1) \<Longrightarrow>
   \<exists>descriptor. functions1 = functions @ [descriptor]
     \<and> (\<forall>others. compile_mcfunction n lx namespace others = Inr (others @ [descriptor], lx1))"
  unfolding compile_mcfunction_def
  by (auto split: sum.splits prod.splits if_splits)

lemma compile_function_appends:
  "compile_function n lx namespace imports functions = Inr (functions1, lx1) \<Longrightarrow>
   \<exists>descriptor. functions1 = functions @ [descriptor]
     \<and> (\<forall>others. compile_function n lx namespace imports others
           = Inr (others @ [descriptor], lx1))"
  unfolding compile_function_def
  by (auto split: sum.splits prod.splits if_splits)

text \<open>
  C8, as stated: a program that declares two functions of the same qualified path is
  refused at the second declaration, and an accepted program has no two descriptors of
  the same path. The program
  \<^verbatim>\<open>namespace d { mcfunction 'minecraft:reload' f(): Void; function f(): Void { } }\<close>
  declares \<^verbatim>\<open>d.f\<close> twice; the parser returns two descriptors of the path \<^verbatim>\<open>d.f\<close>, and the
  compiler accepts the program and writes its output.
\<close>

theorem duplicate_path_accepted_counterexample:
  "compile_file 20 duplicate_source [] =
     Inr [MCFunction [''d'', ''f''] [] Void ''minecraft:reload'',
          CubentFunction [''d'', ''f''] [] Void []]
   \<and> function_path (MCFunction [''d'', ''f''] [] Void ''minecraft:reload'') =
       function_path (CubentFunction [''d'', ''f''] [] Void [])
   \<and> compile 20 sample_uuid [Some [duplicate_source]] (MinecraftVersion 1 14 1) =
     Inr \<lparr>directories =
            [[], [''data''], [''data'', ''id0''], [''data'', ''id0'', ''functions''],
             [''data'', ''minecraft''], [''data'', ''minecraft'', ''functions''],
             [''data'', ''d''], [''data'', ''d'', ''functions'']],
          files =
            [([''data'', ''d'', ''functions'', ''f.mcfunction''],
              [''scoreboard objectives add cubent.scoreboard dummy'',
               ''data modify storage id0.d:f Stack set value []'',
               ''execute unless data storage id0.d:f Variables run data modify storage id0.d:f Variables set value {}''])]\<rparr>"
proof (intro conjI)
  show "compile_file 20 duplicate_source [] =
     Inr [MCFunction [''d'', ''f''] [] Void ''minecraft:reload'',
          CubentFunction [''d'', ''f''] [] Void []]"
    by (rule duplicate_source_parsed)
next
  show "function_path (MCFunction [''d'', ''f''] [] Void ''minecraft:reload'') =
       function_path (CubentFunction [''d'', ''f''] [] Void [])"
    by simp
next
  show "compile 20 sample_uuid [Some [duplicate_source]] (MinecraftVersion 1 14 1) =
     Inr \<lparr>directories =
            [[], [''data''], [''data'', ''id0''], [''data'', ''id0'', ''functions''],
             [''data'', ''minecraft''], [''data'', ''minecraft'', ''functions''],
             [''data'', ''d''], [''data'', ''d'', ''functions'']],
          files =
            [([''data'', ''d'', ''functions'', ''f.mcfunction''],
              [''scoreboard objectives add cubent.scoreboard dummy'',
               ''data modify storage id0.d:f Stack set value []'',
               ''execute unless data storage id0.d:f Variables run data modify storage id0.d:f Variables set value {}''])]\<rparr>"
    by (simp add: duplicate_source_parsed emitter_defs compile_defs)
qed

text \<open>
  C8, amended: no declaration is compared with the earlier ones. A declaration that
  \<^verbatim>\<open>compile_structure\<close> accepts appends exactly one descriptor to the list of functions,
  and it is accepted with the same descriptor after any other list of functions, also
  one that holds a function of the same path.
\<close>

theorem declaration_appends_descriptor:
  assumes "compile_structure n lx namespace imports functions = Inr (functions1, lx1)"
  shows "\<exists>descriptor. functions1 = functions @ [descriptor]
     \<and> (\<forall>others. compile_structure n lx namespace imports others
           = Inr (others @ [descriptor], lx1))"
proof -
  from assms obtain lexeme lx0 where nl: "next_lexeme lx = Inr (lexeme, lx0)"
    by (auto simp: compile_structure_def split: sum.splits)
  show ?thesis
  proof (cases "lexeme_body lexeme = Some ''function''")
    case True
    with assms nl have "compile_function n lx0 namespace imports functions
        = Inr (functions1, lx1)"
      by (simp add: compile_structure_def)
    from compile_function_appends [OF this] obtain descriptor where
      "functions1 = functions @ [descriptor]"
      "\<forall>others. compile_function n lx0 namespace imports others
         = Inr (others @ [descriptor], lx1)"
      by blast
    with nl True show ?thesis by (simp add: compile_structure_def)
  next
    case False
    with assms nl have m: "lexeme_body lexeme = Some ''mcfunction''"
      by (auto simp: compile_structure_def split: if_splits)
    with assms nl False have "compile_mcfunction n lx0 namespace functions
        = Inr (functions1, lx1)"
      by (simp add: compile_structure_def)
    from compile_mcfunction_appends [OF this] obtain descriptor where
      "functions1 = functions @ [descriptor]"
      "\<forall>others. compile_mcfunction n lx0 namespace others = Inr (others @ [descriptor], lx1)"
      by blast
    with nl False m show ?thesis by (simp add: compile_structure_def)
  qed
qed

theorem declaration_appends_descriptor_witness:
  "compile_structure 20 \<lparr>offset = 54, line = 0, column = 54, input = duplicate_source\<rparr>
       [''d''] [] [MCFunction [''d'', ''f''] [] Void ''minecraft:reload''] =
     Inr ([MCFunction [''d'', ''f''] [] Void ''minecraft:reload'',
           CubentFunction [''d'', ''f''] [] Void []],
          \<lparr>offset = 77, line = 0, column = 77, input = duplicate_source\<rparr>)
   \<and> (\<exists>descriptor.
         [MCFunction [''d'', ''f''] [] Void ''minecraft:reload'',
          CubentFunction [''d'', ''f''] [] Void []] =
           [MCFunction [''d'', ''f''] [] Void ''minecraft:reload''] @ [descriptor]
         \<and> (\<forall>others. compile_structure 20
                \<lparr>offset = 54, line = 0, column = 54, input = duplicate_source\<rparr>
                [''d''] [] others =
              Inr (others @ [descriptor],
                   \<lparr>offset = 77, line = 0, column = 77, input = duplicate_source\<rparr>)))"
proof -
  have r: "compile_structure 20 \<lparr>offset = 54, line = 0, column = 54, input = duplicate_source\<rparr>
       [''d''] [] [MCFunction [''d'', ''f''] [] Void ''minecraft:reload''] =
     Inr ([MCFunction [''d'', ''f''] [] Void ''minecraft:reload'',
           CubentFunction [''d'', ''f''] [] Void []],
          \<lparr>offset = 77, line = 0, column = 77, input = duplicate_source\<rparr>)"
    by (simp add: fuel_unfold parser_defs compile_defs duplicate_source_lexemes)
  from declaration_appends_descriptor [OF r] r show ?thesis by simp
qed

end
